theory Spec2Isabelle
  imports Main "HOL-Library.Sublist" "HOL-Library.Multiset"
begin

section \<open>JavaScript strings\<close>

text \<open>
  A JavaScript string is a sequence of UTF-16 code units; \<open>length\<close>, \<open>slice\<close>,
  \<open>substring\<close> and the regular expressions of the sources (none carries the \<open>u\<close> flag)
  all count and match code units. A code unit is modelled by its number, a string by the
  list of its code units. \<open>str\<close> embeds an ASCII literal of the source.
\<close>

type_synonym jschar = nat
type_synonym jsstring = "jschar list"

definition str :: "string \<Rightarrow> jsstring" where
  "str s = map of_char s"

text \<open>Truthiness of a string value: only the empty string is falsy.\<close>

definition truthy :: "jsstring \<Rightarrow> bool" where
  "truthy s = (s \<noteq> [])"

text \<open>\<open>a || b\<close> on strings.\<close>

definition or_else :: "jsstring \<Rightarrow> jsstring \<Rightarrow> jsstring" where
  "or_else a b = (if truthy a then a else b)"

text \<open>\<open>String.prototype.startsWith\<close> and \<open>String.prototype.includes\<close>.\<close>

fun startsWith :: "jsstring \<Rightarrow> jsstring \<Rightarrow> bool" where
  "startsWith s [] = True"
| "startsWith [] (p # ps) = False"
| "startsWith (c # cs) (p # ps) = (c = p \<and> startsWith cs ps)"

fun js_includes :: "jsstring \<Rightarrow> jsstring \<Rightarrow> bool" where
  "js_includes [] p = (p = [])"
| "js_includes (c # cs) p = (startsWith (c # cs) p \<or> js_includes cs p)"

text \<open>
  White space and line terminators of ECMAScript, the characters that
  \<open>String.prototype.trim\<close> strips and that \<open>\s\<close> matches: TAB, LF, VT, FF, CR, SP, NBSP,
  U+1680, U+2000..U+200A, U+2028, U+2029, U+202F, U+205F, U+3000 and U+FEFF.
\<close>

definition is_space :: "jschar \<Rightarrow> bool" where
  "is_space c = (c \<in> {9, 10, 11, 12, 13, 32, 160, 5760, 8232, 8233, 8239, 8287, 12288, 65279}
                 \<or> (8192 \<le> c \<and> c \<le> 8202))"

definition js_trim :: "jsstring \<Rightarrow> jsstring" where
  "js_trim s = rev (dropWhile is_space (rev (dropWhile is_space s)))"

text \<open>\<open>Array.prototype.join\<close> on an array of strings.\<close>

fun join :: "jsstring \<Rightarrow> jsstring list \<Rightarrow> jsstring" where
  "join sep [] = []"
| "join sep [x] = x"
| "join sep (x # y # ys) = x @ sep @ join sep (y # ys)"

text \<open>
  Decimal rendering of a non-negative integer, as string concatenation and template
  literals render an integral Number below \<open>10\<^sup>2\<^sup>1\<close>.
\<close>

function show_nat :: "nat \<Rightarrow> jsstring" where
  "show_nat n = (if n < 10 then [48 + n] else show_nat (n div 10) @ [48 + n mod 10])"
  by pat_completeness auto
termination
  by (relation "measure id") auto

declare show_nat.simps [simp del]

section \<open>Side panel (src/sidepanel/panel.js)\<close>

subsection \<open>truncateUrl\<close>

text \<open>
  \<open>new URL(url)\<close> is the browser's parser: it either throws or yields an object of which
  the function reads \<open>hostname\<close> and \<open>pathname\<close>. It is a parameter of the model:
  \<open>None\<close> is the throw, taken by the \<open>catch\<close> branch. The test \<open>!url\<close> holds for
  the empty string, which also stands for a missing \<open>url\<close>.
\<close>

type_synonym url_parser = "jsstring \<Rightarrow> (jsstring \<times> jsstring) option"

definition truncateUrl :: "url_parser \<Rightarrow> jsstring \<Rightarrow> jsstring" where
  "truncateUrl parseURL url =
     (if \<not> truthy url then []
      else case parseURL url of
        Some (hostname, pathname) \<Rightarrow>
          (let display = hostname @ pathname
           in if length display > 40 then take 37 display @ str ''...'' else display)
      | None \<Rightarrow> take 40 url)"

subsection \<open>Conversation state\<close>

record turn =
  role :: jsstring
  content :: jsstring

record chat =
  chat_id :: jsstring
  title :: jsstring
  messages :: "turn list"
  createdAt :: nat
  updatedAt :: nat

record attached_file =
  file_name :: jsstring
  file_content :: jsstring

text \<open>
  What \<open>elements.chatsList\<close> shows: the "No saved chats yet" notice, or one
  \<open>.chat-item\<close> per thread, in document order. An item carries the thread's identifier
  (\<open>data-id\<close>), its title and the date text computed from its \<open>updatedAt\<close>; the model
  keeps the thread itself in the item's place.
\<close>

datatype chats_view = No_chats | Chat_items "chat list"

text \<open>
  The module-level variables of the panel, and the saved-thread list of the page.
  \<open>currentChatId\<close> is \<open>null\<close> (\<open>None\<close>) or a string. The message area of the page is
  not part of the model.
\<close>

record panel =
  conversationHistory :: "turn list"
  isLoading :: bool
  hasApiKey :: bool
  currentFile :: "attached_file option"
  currentChatId :: "jsstring option"
  savedChats :: "chat list"
  chatsList :: chats_view

text \<open>\<open>xs.slice(-n)\<close>: the last \<open>n\<close> elements, all of them when there are fewer.\<close>

definition slice_last :: "nat \<Rightarrow> 'a list \<Rightarrow> 'a list" where
  "slice_last n xs = drop (length xs - n) xs"

text \<open>\<open>Array.prototype.findIndex\<close>; \<open>None\<close> stands for \<open>-1\<close>.\<close>

fun findIndex :: "('a \<Rightarrow> bool) \<Rightarrow> 'a list \<Rightarrow> nat option" where
  "findIndex P [] = None"
| "findIndex P (x # xs) = (if P x then Some 0 else map_option Suc (findIndex P xs))"

subsection \<open>renderChatsList\<close>

text \<open>
  \<open>savedChats.sort((a, b) => b.updatedAt - a.updatedAt)\<close> sorts the array in place,
  newest first; \<open>Array.prototype.sort\<close> is stable, as is \<open>sort_key\<close>. The sorted
  array is also what \<open>savedChats\<close> holds afterwards.
\<close>

definition sortChats :: "chat list \<Rightarrow> chat list" where
  "sortChats cs = sort_key (\<lambda>c. - int (updatedAt c)) cs"

definition renderChatsList :: "panel \<Rightarrow> panel" where
  "renderChatsList s =
     (if length (savedChats s) = 0 then s\<lparr>chatsList := No_chats\<rparr>
      else let sorted_chats = sortChats (savedChats s)
           in s\<lparr>savedChats := sorted_chats, chatsList := Chat_items sorted_chats\<rparr>)"

subsection \<open>saveCurrentChat\<close>

definition is_line_terminator :: "jschar \<Rightarrow> bool" where
  "is_line_terminator c = (c = 10 \<or> c = 13 \<or> c = 8232 \<or> c = 8233)"

text \<open>
  \<open>title.replace(/\[ATTACHED FILE:.*?\]/g, '')\<close>. At a position where the text
  \<open>[ATTACHED FILE:\<close> starts, the lazy \<open>.*?\<close> runs to the first \<open>]\<close>, and fails when a
  line terminator or the end of the string comes first. \<open>until_close\<close> returns what
  follows that \<open>]\<close>.
\<close>

fun until_close :: "jsstring \<Rightarrow> jsstring option" where
  "until_close [] = None"
| "until_close (c # cs) =
     (if c = 93 then Some cs else if is_line_terminator c then None else until_close cs)"

lemma until_close_length: "until_close xs = Some r \<Longrightarrow> length r < length xs"
  by (induction xs) (auto split: if_splits)

function strip_attached :: "jsstring \<Rightarrow> jsstring" where
  "strip_attached [] = []"
| "strip_attached (c # cs) =
     (if startsWith (c # cs) (str ''[ATTACHED FILE:'') then
        (case until_close (drop 15 (c # cs)) of
           Some r \<Rightarrow> strip_attached r
         | None \<Rightarrow> c # strip_attached cs)
      else c # strip_attached cs)"
  by pat_completeness auto
termination
proof (relation "measure length")
  show "wf (measure length)" by simp
next
  fix c :: jschar and cs r :: jsstring
  assume "until_close (drop 15 (c # cs)) = Some r"
  then have "length r < length (drop 15 (c # cs))" by (rule until_close_length)
  then show "(r, c # cs) \<in> measure length" by simp
qed auto

text \<open>
  \<open>Date.now()\<close> is read once when an existing thread is updated and three times when a
  thread is created (identifier, \<open>createdAt\<close>, \<open>updatedAt\<close>); \<open>now k\<close> is the \<open>k\<close>-th
  reading of the call. \<open>storage_ok\<close> is false when \<open>chrome.storage.local.set\<close> rejects:
  the \<open>catch\<close> block then skips \<open>renderChatsList\<close>.
\<close>

definition chatTitle :: "turn list \<Rightarrow> jsstring" where
  "chatTitle h =
     or_else (case find (\<lambda>m. role m = str ''user'') h of
                None \<Rightarrow> []
              | Some firstUserMsg \<Rightarrow> take 50 (content firstUserMsg))
             (str ''New Chat'')"

text \<open>The \<open>else\<close> branch of \<open>saveCurrentChat\<close>: a new thread is appended.\<close>

definition createChat :: "(nat \<Rightarrow> nat) \<Rightarrow> jsstring \<Rightarrow> panel \<Rightarrow> panel" where
  "createChat now title0 s =
     s\<lparr>currentChatId := Some (str ''chat-'' @ show_nat (now 0)),
       savedChats := savedChats s @
         [\<lparr>chat_id = str ''chat-'' @ show_nat (now 0),
           title = or_else (js_trim (strip_attached title0)) (str ''New Chat''),
           messages = conversationHistory s,
           createdAt = now 1, updatedAt = now 2\<rparr>]\<rparr>"

text \<open>
  \<open>if (currentChatId)\<close> fails for \<open>null\<close> and for the empty string; then a new
  thread is created.
\<close>

definition startsNewThread :: "panel \<Rightarrow> bool" where
  "startsNewThread s = (case currentChatId s of None \<Rightarrow> True | Some cid \<Rightarrow> \<not> truthy cid)"

definition saveCurrentChat :: "(nat \<Rightarrow> nat) \<Rightarrow> bool \<Rightarrow> panel \<Rightarrow> panel" where
  "saveCurrentChat now storage_ok s =
     (if length (conversationHistory s) = 0 then s
      else
        let title0 = chatTitle (conversationHistory s);
            s1 = (case currentChatId s of
                    None \<Rightarrow> createChat now title0 s
                  | Some cid \<Rightarrow>
                      (if startsNewThread s then createChat now title0 s
                       else
                         (case findIndex (\<lambda>c. chat_id c = cid) (savedChats s) of
                            Some chatIndex \<Rightarrow>
                              s\<lparr>savedChats := (savedChats s)[chatIndex :=
                                   (savedChats s ! chatIndex)
                                     \<lparr>messages := conversationHistory s, updatedAt := now 0\<rparr>]\<rparr>
                          | None \<Rightarrow> s)))
        in if storage_ok then renderChatsList s1 else s1)"

subsection \<open>loadChat, startNewChat, deleteChat\<close>

definition loadChat :: "jsstring \<Rightarrow> panel \<Rightarrow> panel" where
  "loadChat chatId s =
     (case find (\<lambda>c. chat_id c = chatId) (savedChats s) of
        None \<Rightarrow> s
      | Some c \<Rightarrow> s\<lparr>currentChatId := Some chatId, conversationHistory := messages c\<rparr>)"

definition startNewChat :: "panel \<Rightarrow> panel" where
  "startNewChat s = s\<lparr>currentChatId := None, conversationHistory := []\<rparr>"

text \<open>
  \<open>deleteChat\<close> filters the array before it awaits the storage write; when the write
  rejects, the \<open>catch\<close> block is entered and neither \<open>startNewChat\<close> nor
  \<open>renderChatsList\<close> runs.
\<close>

definition deleteChat :: "jsstring \<Rightarrow> bool \<Rightarrow> panel \<Rightarrow> panel" where
  "deleteChat chatId storage_ok s =
     (let s1 = s\<lparr>savedChats := filter (\<lambda>c. chat_id c \<noteq> chatId) (savedChats s)\<rparr>
      in if \<not> storage_ok then s1
         else renderChatsList
                (if currentChatId s1 = Some chatId then startNewChat s1 else s1))"

subsection \<open>sendMessage\<close>

text \<open>
  Lines 446 to 454 of \<open>sendMessage\<close>: the two pushes and the trimming of the history.
\<close>

definition pushExchange :: "jsstring \<Rightarrow> jsstring \<Rightarrow> turn list \<Rightarrow> turn list" where
  "pushExchange userContent response h =
     h @ [\<lparr>role = str ''user'', content = userContent\<rparr>,
          \<lparr>role = str ''assistant'', content = response\<rparr>]"

definition trimHistory :: "turn list \<Rightarrow> turn list" where
  "trimHistory h = (if length h > 20 then slice_last 20 h else h)"

text \<open>The user turn sent to the model: the typed text, then the attached file if any.\<close>

definition buildUserContent :: "jsstring \<Rightarrow> attached_file option \<Rightarrow> jsstring" where
  "buildUserContent message file =
     (case file of
        None \<Rightarrow> message
      | Some f \<Rightarrow>
          (if truthy message then message @ [10, 10] else []) @
          str ''[ATTACHED FILE: '' @ file_name f @ str '']'' @ [10] @
          str ''```'' @ [10] @ take 50000 (file_content f) @ [10] @ str ''```'')"

text \<open>
  What the run of \<open>sendMessage\<close> meets outside the panel: the text of the input box,
  the \<open>apiKey\<close> of the settings (asked for only while \<open>hasApiKey\<close> is false), the answer
  of the background page to the \<open>chat\<close> request, the clock and the storage write of
  \<open>saveCurrentChat\<close>. A failed answer carries \<open>success: false\<close>; \<open>Chat_throws\<close> is a
  rejected request.
\<close>

datatype chat_result = Chat_success jsstring | Chat_failure | Chat_throws

record send_env =
  input_value :: jsstring
  settings_apiKey :: jsstring
  chat_answer :: chat_result
  clock :: "nat \<Rightarrow> nat"
  storage_ok :: bool

definition sendMessage :: "send_env \<Rightarrow> panel \<Rightarrow> panel" where
  "sendMessage env s =
     (let message = js_trim (input_value env)
      in if (\<not> truthy message \<and> currentFile s = None) \<or> isLoading s then s
         else
           let s1 = (if hasApiKey s then s else s\<lparr>hasApiKey := truthy (settings_apiKey env)\<rparr>)
           in if \<not> hasApiKey s1 then s1
              else
                let userContent = buildUserContent message (currentFile s1);
                    s2 = s1\<lparr>currentFile := None, isLoading := True\<rparr>
                in (case chat_answer env of
                      Chat_success response \<Rightarrow>
                        (saveCurrentChat (clock env) (storage_ok env)
                           (s2\<lparr>conversationHistory :=
                                 trimHistory (pushExchange userContent response
                                                (conversationHistory s2))\<rparr>))
                        \<lparr>isLoading := False\<rparr>
                    | Chat_failure \<Rightarrow> s2\<lparr>isLoading := False\<rparr>
                    | Chat_throws \<Rightarrow> s2\<lparr>isLoading := False\<rparr>))"

subsection \<open>formatMessageIncremental, formatMessage, typeMessage\<close>

text \<open>
  \<open>s.replace(re, r)\<close> with a global regular expression: the string is scanned from
  the left; at each position the expression is tried; where it matches, the replacement
  is emitted and the scan resumes behind the match, elsewhere the code unit is copied.
  A matcher receives the code unit in front of the position (\<open>None\<close> at the start of
  the input, for \<open>^\<close> and the lookbehind) and the rest of the input, and returns the
  replacement text and the number of code units matched. After an empty match the
  scan copies one code unit and moves on, as \<open>lastIndex\<close> is advanced.
\<close>

type_synonym matcher = "jschar option \<Rightarrow> jsstring \<Rightarrow> (jsstring \<times> nat) option"

function replace_all :: "matcher \<Rightarrow> jschar option \<Rightarrow> jsstring \<Rightarrow> jsstring" where
  "replace_all m prev [] = (case m prev [] of Some (out, n) \<Rightarrow> out | None \<Rightarrow> [])"
| "replace_all m prev (c # cs) =
     (case m prev (c # cs) of
        None \<Rightarrow> c # replace_all m (Some c) cs
      | Some (out, n) \<Rightarrow>
          (if n = 0 then out @ c # replace_all m (Some c) cs
           else out @ replace_all m (Some (last (take n (c # cs)))) (drop n (c # cs))))"
  by pat_completeness auto
termination
  by (relation "measure (\<lambda>(m, prev, s). length s)") auto

text \<open>Replacement of every occurrence of one code unit (\<open>/&/g\<close>, \<open>/\n/g\<close>).\<close>

definition replace_char :: "jschar \<Rightarrow> jsstring \<Rightarrow> jsstring \<Rightarrow> jsstring" where
  "replace_char c r s = concat (map (\<lambda>x. if x = c then r else [x]) s)"

text \<open>The character classes \<open>\w\<close> and \<open>\d\<close>.\<close>

definition is_digit :: "jschar \<Rightarrow> bool" where
  "is_digit c = (48 \<le> c \<and> c \<le> 57)"

definition is_word :: "jschar \<Rightarrow> bool" where
  "is_word c = ((65 \<le> c \<and> c \<le> 90) \<or> (97 \<le> c \<and> c \<le> 122) \<or> is_digit c \<or> c = 95)"

text \<open>
  \<open>^\<close> under the \<open>m\<close> flag: the start of the input or the position behind a line
  terminator. \<open>(.+)$\<close> under the \<open>m\<close> flag takes the rest of the line, which must not be
  empty: \<open>.\<close> matches everything but a line terminator, and the greedy run ends where
  \<open>$\<close> holds.
\<close>

definition at_line_start :: "jschar option \<Rightarrow> bool" where
  "at_line_start prev = (case prev of None \<Rightarrow> True | Some p \<Rightarrow> is_line_terminator p)"

definition rest_of_line :: "jsstring \<Rightarrow> jsstring" where
  "rest_of_line s = takeWhile (\<lambda>c. \<not> is_line_terminator c) s"

text \<open>
  \<open>/```(\w*)\n?([\s\S]*?)```/g\<close> with the replacement function
  \<open>(_, lang, code) => `<pre><code>${code.trim()}</code></pre>`\<close>. After the opening
  fence the greedy \<open>\w*\<close> takes every word character, \<open>\n?\<close> a line feed if one
  follows, and the lazy group runs to the first closing fence; giving back word
  characters or the line feed cannot produce a match that the first attempt misses,
  since neither contains a backtick. \<open>before_fence\<close> returns the text in front of
  the first fence.
\<close>

fun before_fence :: "jsstring \<Rightarrow> jsstring option" where
  "before_fence [] = None"
| "before_fence (c # cs) =
     (if startsWith (c # cs) (str ''```'') then Some []
      else map_option ((#) c) (before_fence cs))"

definition match_code_block :: matcher where
  "match_code_block prev s =
     (if startsWith s (str ''```'') then
        (let lang = takeWhile is_word (drop 3 s);
             after_lang = dropWhile is_word (drop 3 s);
             nl = (if startsWith after_lang [10] then 1 else 0)
         in case before_fence (drop nl after_lang) of
              None \<Rightarrow> None
            | Some code \<Rightarrow>
                Some (str ''<pre><code>'' @ js_trim code @ str ''</code></pre>'',
                      3 + length lang + nl + length code + 3))
      else None)"

text \<open>
  A delimited run: \<open>open\<close>, then one or more code units other than \<open>stop\<close> (the
  greedy negated class), then \<open>close\<close>, wrapped in the given tag. It serves
  \<open>/`([^`]+)`/g\<close> and \<open>/\*\*([^*]+)\*\*/g\<close>.
\<close>

definition match_delimited ::
    "jsstring \<Rightarrow> jschar \<Rightarrow> jsstring \<Rightarrow> jsstring \<Rightarrow> jsstring \<Rightarrow> (jsstring \<times> nat) option" where
  "match_delimited delim stop open_tag close_tag s =
     (if startsWith s delim then
        (let body = takeWhile (\<lambda>c. c \<noteq> stop) (drop (length delim) s);
             after_body = dropWhile (\<lambda>c. c \<noteq> stop) (drop (length delim) s)
         in if body \<noteq> [] \<and> startsWith after_body delim
            then Some (open_tag @ body @ close_tag, 2 * length delim + length body)
            else None)
      else None)"

definition match_inline_code :: matcher where
  "match_inline_code prev s = match_delimited [96] 96 (str ''<code>'') (str ''</code>'') s"

definition match_bold :: matcher where
  "match_bold prev s = match_delimited [42, 42] 42 (str ''<strong>'') (str ''</strong>'') s"

text \<open>
  \<open>/(?<!\*)\*([^*]+)\*(?!\*)/g\<close>: a single asterisk not preceded by one, a run without
  asterisks, and a closing asterisk not followed by one.
\<close>

definition match_italic :: matcher where
  "match_italic prev s =
     (if prev \<noteq> Some 42 \<and> startsWith s [42] then
        (let body = takeWhile (\<lambda>c. c \<noteq> 42) (drop 1 s);
             after_body = dropWhile (\<lambda>c. c \<noteq> 42) (drop 1 s)
         in if body \<noteq> [] \<and> startsWith after_body [42] \<and> \<not> startsWith (drop 1 after_body) [42]
            then Some (str ''<em>'' @ body @ str ''</em>'', length body + 2)
            else None)
      else None)"

text \<open>
  \<open>/^### (.+)$/gm\<close>, \<open>/^## (.+)$/gm\<close> and \<open>/^# (.+)$/gm\<close>; the replacement is
  \<open><strong style="font-size: 1.1em;">$1</strong>\<close> with sizes 1.1, 1.2 and 1.3. Code
  unit 34 is the double quote.
\<close>

definition match_header :: "jsstring \<Rightarrow> jsstring \<Rightarrow> matcher" where
  "match_header marker em prev s =
     (if at_line_start prev \<and> startsWith s marker then
        (let body = rest_of_line (drop (length marker) s)
         in if body \<noteq> []
            then Some (str ''<strong style='' @ [34] @ str ''font-size: '' @ em @ str ''em;'' @
                         [34] @ str ''>'' @ body @ str ''</strong>'',
                       length marker + length body)
            else None)
      else None)"

text \<open>\<open>/^[-*] (.+)$/gm\<close>, replaced by a bullet (U+2022), a space and the line.\<close>

definition match_bullet :: matcher where
  "match_bullet prev s =
     (if at_line_start prev \<and> (startsWith s (str ''- '') \<or> startsWith s (str ''* '')) then
        (let body = rest_of_line (drop 2 s)
         in if body \<noteq> [] then Some ([8226, 32] @ body, 2 + length body) else None)
      else None)"

text \<open>\<open>/^(\d+)\. (.+)$/gm\<close>, replaced by \<open>$1. $2\<close>.\<close>

definition match_numbered :: matcher where
  "match_numbered prev s =
     (let digits = takeWhile is_digit s;
          after_digits = dropWhile is_digit s
      in if at_line_start prev \<and> digits \<noteq> [] \<and> startsWith after_digits (str ''. '') then
           (let body = rest_of_line (drop 2 after_digits)
            in if body \<noteq> []
               then Some (digits @ str ''. '' @ body, length digits + 2 + length body)
               else None)
         else None)"

definition escape_html :: "jsstring \<Rightarrow> jsstring" where
  "escape_html s =
     replace_char 62 (str ''&gt;'') (replace_char 60 (str ''&lt;'') (replace_char 38 (str ''&amp;'') s))"

text \<open>The two formatters, statement by statement.\<close>

definition formatMessageIncremental :: "jsstring \<Rightarrow> jsstring" where
  "formatMessageIncremental txt =
     (let formatted = escape_html txt;
          formatted = replace_all match_code_block None formatted;
          formatted = replace_all match_inline_code None formatted;
          formatted = replace_all match_bold None formatted;
          formatted = replace_all match_italic None formatted;
          formatted = replace_all (match_header (str ''### '') (str ''1.1'')) None formatted;
          formatted = replace_all (match_header (str ''## '') (str ''1.2'')) None formatted;
          formatted = replace_all (match_header (str ''# '') (str ''1.3'')) None formatted;
          formatted = replace_all match_bullet None formatted;
          formatted = replace_all match_numbered None formatted;
          formatted = replace_char 10 (str ''<br>'') formatted
      in formatted)"

definition formatMessage :: "jsstring \<Rightarrow> jsstring" where
  "formatMessage txt =
     (let formatted = escape_html txt;
          formatted = replace_all match_code_block None formatted;
          formatted = replace_all match_inline_code None formatted;
          formatted = replace_all match_bold None formatted;
          formatted = replace_all match_italic None formatted;
          formatted = replace_all (match_header (str ''### '') (str ''1.1'')) None formatted;
          formatted = replace_all (match_header (str ''## '') (str ''1.2'')) None formatted;
          formatted = replace_all (match_header (str ''# '') (str ''1.3'')) None formatted;
          formatted = replace_all match_bullet None formatted;
          formatted = replace_all match_numbered None formatted;
          formatted = replace_char 10 (str ''<br>'') formatted
      in formatted)"

text \<open>
  \<open>typeMessage\<close>: the reply is split into code units; each step of \<open>typeChar\<close> appends
  one to \<open>rawText\<close> and sets the bubble to \<open>formatMessageIncremental(rawText)\<close>; when
  none is left the content of the message is set to \<open>formatMessage(content)\<close>. The
  timers between the steps only delay them. \<open>typeChar\<close> returns the bubble as the last
  step leaves it; it is empty before the first step. \<open>typeMessage\<close> returns that
  bubble and the final content, for a placeholder element that exists (without it
  the function returns at once).
\<close>

fun typeChar :: "jsstring \<Rightarrow> jsstring \<Rightarrow> jsstring \<Rightarrow> jsstring" where
  "typeChar rawText bubble [] = bubble"
| "typeChar rawText bubble (c # chars) =
     typeChar (rawText @ [c]) (formatMessageIncremental (rawText @ [c])) chars"

definition typeMessage :: "jsstring \<Rightarrow> jsstring \<times> jsstring" where
  "typeMessage reply = (typeChar [] [] reply, formatMessage reply)"

section \<open>Background service worker\<close>

subsection \<open>The extraction result\<close>

text \<open>
  The record that the injected function of \<open>extractPageContent\<close> returns, with the
  fields that \<open>formatContentForAI\<close> reads. A table built by \<open>processTable\<close> has a
  caption (possibly empty); the grid records have none (\<open>None\<close>).
\<close>

record table_data =
  caption :: "jsstring option"
  headers :: "jsstring list"
  rows :: "jsstring list list"

record metric =
  metric_label :: jsstring
  metric_value :: jsstring

record chart_info =
  chart_title :: jsstring
  chart_data :: "jsstring list"

record data_attribute =
  attr_text :: jsstring
  attributes :: "(jsstring \<times> jsstring) list"

record form_field =
  field_type :: jsstring
  field_label :: jsstring
  field_value :: jsstring

record form_data =
  form_index :: nat
  form_action :: jsstring
  form_fields :: "form_field list"

record list_data =
  items :: "jsstring list"

record link =
  link_text :: jsstring
  href :: jsstring

record page_data =
  url :: jsstring
  page_title :: jsstring
  metaDescription :: jsstring
  selectedText :: jsstring
  headings :: "jsstring list"
  tables :: "table_data list"
  metrics :: "metric list"
  chartData :: "chart_info list"
  dataAttributes :: "data_attribute list"
  forms :: "form_data list"
  lists :: "list_data list"
  mainContent :: jsstring
  allVisibleText :: jsstring
  links :: "link list"

subsection \<open>formatContentForAI\<close>

text \<open>
  The non-ASCII characters of the template literals, as the source file holds them:
  the rule is a repetition of the two code units U+00E2 U+2022, the bullet is U+00E2
  U+20AC U+00A2, the arrow U+00E2 U+2020 U+2019, the marks in front of \<open>URL\<close>,
  \<open>TITLE\<close> and \<open>DESCRIPTION\<close> start with U+00F0 U+0178 U+201C.
\<close>

definition rule :: "nat \<Rightarrow> jsstring" where
  "rule n = concat (replicate n [226, 8226])"

definition bullet :: jsstring where
  "bullet = [226, 8364, 162]"

definition arrow :: jsstring where
  "arrow = [226, 8224, 8217]"

definition sectionTitle :: "jsstring \<Rightarrow> jsstring" where
  "sectionTitle name = rule 16 @ str '' '' @ name @ str '' '' @ rule 16 @ [10]"

definition pageHeader :: "page_data \<Rightarrow> jsstring" where
  "pageHeader d =
     rule 64 @ [10] @
     str ''                    COMPLETE PAGE DATA EXTRACTION'' @ [10] @
     rule 64 @ [10] @
     [10] @
     [240, 376, 8220] @ str '' URL: '' @ url d @ [10] @
     [240, 376, 8220, 8222] @ str '' TITLE: '' @ page_title d @ [10] @
     [240, 376, 8220] @ str '' DESCRIPTION: '' @ or_else (metaDescription d) (str ''N/A'') @ [10] @
     [10]"

definition selectedTextSection :: "page_data \<Rightarrow> jsstring" where
  "selectedTextSection d =
     (if truthy (selectedText d)
      then sectionTitle (str ''SELECTED TEXT'') @ selectedText d @ [10] @ [10]
      else [])"

definition headingsSection :: "page_data \<Rightarrow> jsstring" where
  "headingsSection d =
     (if length (headings d) > 0
      then sectionTitle (str ''PAGE STRUCTURE'') @ join [10] (headings d) @ [10] @ [10]
      else [])"

definition formatRow :: "nat \<times> jsstring list \<Rightarrow> jsstring" where
  "formatRow = (\<lambda>(rowIdx, row).
     str ''ROW '' @ show_nat (rowIdx + 1) @ str '': '' @ join (str '' | '') row @ [10])"

definition formatTable :: "nat \<times> table_data \<Rightarrow> jsstring" where
  "formatTable = (\<lambda>(i, table).
     [10] @ str ''--- TABLE '' @ show_nat (i + 1) @ str '' '' @
     (case caption table of
        None \<Rightarrow> []
      | Some c \<Rightarrow> if truthy c then str ''('' @ c @ str '')'' else []) @
     str '' ---'' @ [10] @
     (if length (headers table) > 0
      then str ''HEADERS: '' @ join (str '' | '') (headers table) @ [10] @
           replicate 50 45 @ [10]
      else []) @
     concat (map formatRow (enumerate 0 (rows table))))"

definition tablesSection :: "page_data \<Rightarrow> jsstring" where
  "tablesSection d =
     (if length (tables d) > 0
      then sectionTitle (str ''TABLES & DATA GRIDS'') @
           concat (map formatTable (enumerate 0 (tables d))) @ [10]
      else [])"

definition metricsSection :: "page_data \<Rightarrow> jsstring" where
  "metricsSection d =
     (if length (metrics d) > 0
      then sectionTitle (str ''METRICS & KPIs'') @
           concat (map (\<lambda>m. bullet @ str '' '' @ or_else (metric_label m) (str ''Metric'') @
                             str '': '' @ metric_value m @ [10]) (metrics d)) @ [10]
      else [])"

definition formatChart :: "nat \<times> chart_info \<Rightarrow> jsstring" where
  "formatChart = (\<lambda>(i, chart).
     str ''Chart '' @ show_nat (i + 1) @ str '': '' @
     or_else (chart_title chart) (str ''Untitled'') @ [10] @
     (if length (chart_data chart) > 0
      then str ''  Data: '' @ join (str '', '') (take 50 (chart_data chart)) @ [10]
      else []))"

definition chartSection :: "page_data \<Rightarrow> jsstring" where
  "chartSection d =
     (if length (chartData d) > 0
      then sectionTitle (str ''CHART DATA'') @
           concat (map formatChart (enumerate 0 (chartData d))) @ [10]
      else [])"

definition formatAttributes :: "data_attribute \<Rightarrow> jsstring" where
  "formatAttributes d =
     (let attrs = join (str '', '')
                    (map (\<lambda>(k, v). k @ str ''='' @ [34] @ v @ [34]) (attributes d))
      in bullet @ str '' '' @ or_else (attr_text d) (str ''Element'') @ str '': '' @ attrs @ [10])"

definition dataAttributesSection :: "page_data \<Rightarrow> jsstring" where
  "dataAttributesSection d =
     (if length (dataAttributes d) > 0
      then sectionTitle (str ''DATA ATTRIBUTES'') @
           concat (map formatAttributes (dataAttributes d)) @ [10]
      else [])"

definition formatField :: "form_field \<Rightarrow> jsstring" where
  "formatField f =
     str ''  '' @ bullet @ str '' ['' @ field_type f @ str ''] '' @ field_label f @
     str '': '' @ field_value f @ [10]"

definition formatForm :: "nat \<times> form_data \<Rightarrow> jsstring" where
  "formatForm = (\<lambda>(i, form).
     str ''Form '' @ show_nat (i + 1) @ str '':'' @ [10] @
     concat (map formatField (form_fields form)))"

definition formsSection :: "page_data \<Rightarrow> jsstring" where
  "formsSection d =
     (if length (forms d) > 0
      then sectionTitle (str ''FORMS'') @
           concat (map formatForm (enumerate 0 (forms d))) @ [10]
      else [])"

definition formatList :: "nat \<times> list_data \<Rightarrow> jsstring" where
  "formatList = (\<lambda>(i, l).
     str ''List '' @ show_nat (i + 1) @ str '':'' @ [10] @
     concat (map (\<lambda>(j, item). str ''  '' @ show_nat (j + 1) @ str ''. '' @ item @ [10])
               (enumerate 0 (items l))))"

definition listsSection :: "page_data \<Rightarrow> jsstring" where
  "listsSection d =
     (if length (lists d) > 0
      then sectionTitle (str ''LISTS'') @
           concat (map formatList (enumerate 0 (lists d))) @ [10]
      else [])"

definition mainContentSection :: "page_data \<Rightarrow> jsstring" where
  "mainContentSection d =
     sectionTitle (str ''MAIN PAGE CONTENT'') @
     or_else (take 60000 (mainContent d)) (str ''No content extracted'') @ [10] @ [10]"

definition allVisibleTextSection :: "page_data \<Rightarrow> jsstring" where
  "allVisibleTextSection d =
     (if truthy (allVisibleText d) \<and> length (allVisibleText d) > 100
      then sectionTitle (str ''ALL VISIBLE TEXT (BACKUP)'') @
           or_else (take 40000 (allVisibleText d)) [] @ [10] @ [10]
      else [])"

definition linksSection :: "page_data \<Rightarrow> jsstring" where
  "linksSection d =
     (if length (links d) > 0
      then sectionTitle (str ''LINKS ('' @ show_nat (length (links d)) @ str '' total)'') @
           join [10] (map (\<lambda>l. bullet @ str '' '' @ [34] @ link_text l @ [34] @ str '' '' @
                                arrow @ str '' '' @ href l)
                        (take 50 (links d))) @ [10]
      else [])"

text \<open>
  \<open>data\<close> is \<open>null\<close> (\<open>None\<close>) when \<open>extractPageContent\<close> got no result or failed. The
  sections are appended to \<open>context\<close> in this order.
\<close>

definition formatContentForAI :: "page_data option \<Rightarrow> jsstring" where
  "formatContentForAI data =
     (case data of
        None \<Rightarrow> str ''Unable to extract page content.''
      | Some d \<Rightarrow>
          pageHeader d @ selectedTextSection d @ headingsSection d @ tablesSection d @
          metricsSection d @ chartSection d @ dataAttributesSection d @ formsSection d @
          listsSection d @ mainContentSection d @ allVisibleTextSection d @ linksSection d)"

subsection \<open>extractForms\<close>

text \<open>
  What \<open>extractForms\<close> reads of the document: the elements matched by
  \<open>form, [role="form"]\<close> in document order, of each whether \<open>isVisible\<close> holds, its
  \<open>action\<close> and the \<open>input\<close>, \<open>select\<close> and \<open>textarea\<close> elements inside it. Of a
  field it reads the \<open>aria-label\<close> attribute (\<open>None\<close> when absent), \<open>placeholder\<close>,
  \<open>name\<close>, the answer of \<open>document.querySelector\<close> to the selector
  \<open>label[for="<id>"]\<close> built from the field's \<open>id\<close>, the text content of the closest
  enclosing \<open>label\<close> (\<open>None\<close> when there is none), \<open>type\<close>, \<open>tagName\<close>, \<open>checked\<close>,
  \<open>value\<close> and the text of the selected option. The query either throws, when the
  \<open>id\<close> makes the selector invalid (a double quote in it, for one), or yields the text
  content of the first matching \<open>label\<close>, \<open>None\<close> when none matches.
\<close>

datatype label_query = Query_throws | Query_result "jsstring option"

record field_element =
  el_type :: jsstring
  el_tagName :: jsstring
  el_ariaLabel :: "jsstring option"
  el_placeholder :: jsstring
  el_name :: jsstring
  el_labelQuery :: label_query
  el_closestLabel :: "jsstring option"
  el_value :: jsstring
  el_checked :: bool
  el_selectedOptionText :: "jsstring option"

record form_element =
  el_visible :: bool
  el_action :: jsstring
  el_fields :: "field_element list"

text \<open>\<open>s.replace(pattern, replacement)\<close> with a string pattern: the first occurrence.\<close>

fun replace_first :: "jsstring \<Rightarrow> jsstring \<Rightarrow> jsstring \<Rightarrow> jsstring" where
  "replace_first pat rep [] = (if pat = [] then rep else [])"
| "replace_first pat rep (c # cs) =
     (if startsWith (c # cs) pat then rep @ drop (length pat) (c # cs)
      else c # replace_first pat rep cs)"

text \<open>\<open>toLowerCase\<close> on the ASCII letters, which is all a tag name holds.\<close>

definition toLowerCase :: "jsstring \<Rightarrow> jsstring" where
  "toLowerCase s = map (\<lambda>c. if 65 \<le> c \<and> c \<le> 90 then c + 32 else c) s"

text \<open>A string or \<open>null\<close>/\<open>undefined\<close> on the left of \<open>||\<close>.\<close>

definition opt_or_else :: "jsstring option \<Rightarrow> jsstring \<Rightarrow> jsstring" where
  "opt_or_else a b = (case a of None \<Rightarrow> b | Some x \<Rightarrow> or_else x b)"

text \<open>
  The label of a field; \<open>None\<close> when the query throws. \<open>||\<close> evaluates its right
  operand only when the left one is falsy, so the query runs only for a field that has
  no \<open>aria-label\<close>, placeholder or name.
\<close>

definition fieldLabel :: "field_element \<Rightarrow> jsstring option" where
  "fieldLabel field =
     (let named = opt_or_else (el_ariaLabel field)
                    (or_else (el_placeholder field) (el_name field))
      in if truthy named then Some named
         else case el_labelQuery field of
                Query_throws \<Rightarrow> None
              | Query_result l \<Rightarrow>
                  Some (opt_or_else (map_option js_trim l)
                          (opt_or_else
                             (map_option
                                (\<lambda>t. js_trim (replace_first (el_value field) [] (js_trim t)))
                                (el_closestLabel field))
                             [])))"

definition fieldValue :: "field_element \<Rightarrow> jsstring" where
  "fieldValue field =
     (if el_type field = str ''password'' then str ''[hidden]''
      else if el_type field = str ''checkbox'' \<or> el_type field = str ''radio''
        then (if el_checked field then str ''checked'' else str ''unchecked'')
      else if el_tagName field = str ''SELECT''
        then opt_or_else (el_selectedOptionText field) []
      else or_else (el_value field) [])"

definition extractField :: "field_element \<Rightarrow> form_field option" where
  "extractField field =
     map_option
       (\<lambda>label. \<lparr>field_type = or_else (el_type field) (toLowerCase (el_tagName field)),
                 field_label = take 100 label,
                 field_value = take 500 (fieldValue field)\<rparr>)
       (fieldLabel field)"

text \<open>
  One step of the loop over the forms: nothing for an invisible form or a form without
  fields, \<open>None\<close> when a field of a visible form makes the query throw.
\<close>

definition extractForm :: "nat \<times> form_element \<Rightarrow> form_data list option" where
  "extractForm = (\<lambda>(idx, form).
     if \<not> el_visible form then Some []
     else case those (map extractField (el_fields form)) of
            None \<Rightarrow> None
          | Some fs \<Rightarrow>
              Some (if length fs > 0
                    then [\<lparr>form_index = idx, form_action = el_action form, form_fields = fs\<rparr>]
                    else []))"

text \<open>
  \<open>extractForms\<close> has no \<open>try\<close> of its own: an exception in any step leaves it
  (\<open>None\<close>). Its caller catches the exception and keeps the empty list that
  \<open>extracted.forms\<close> was initialised with.
\<close>

definition extractForms :: "form_element list \<Rightarrow> form_data list option" where
  "extractForms document_forms =
     map_option concat (those (map extractForm (enumerate 0 document_forms)))"

definition extractedForms :: "form_element list \<Rightarrow> form_data list" where
  "extractedForms document_forms =
     (case extractForms document_forms of None \<Rightarrow> [] | Some fs \<Rightarrow> fs)"

subsection \<open>callOpenAI\<close>

record settings =
  apiKey :: jsstring
  model :: jsstring
  maxTokens :: int
  systemPrompt :: jsstring

text \<open>
  A request handed to \<open>fetch\<close>: address, method, the \<open>Authorization\<close> header and, for
  the chat completion, model, messages and \<open>max_tokens\<close> of the JSON body (whose
  \<open>temperature\<close> is the constant 0.7).
\<close>

record http_request =
  req_url :: jsstring
  req_method :: jsstring
  req_authorization :: jsstring
  req_body :: "(jsstring \<times> turn list \<times> int) option"

text \<open>
  What comes back from \<open>fetch\<close>. It rejects with an error. Or the status is not a
  success: the body is then read with \<open>response.json().catch(() => ({}))\<close>, so that an
  unreadable body counts as \<open>{}\<close>; a body that parses to \<open>null\<close> makes the read of
  \<open>error.error\<close> throw a TypeError; any other body gives \<open>error.error?.message\<close>, a
  string or undefined. Or the status is a success: \<open>response.json()\<close> rejects with an
  error; or the body is \<open>null\<close> or has no \<open>choices\<close> array, and the read of
  \<open>data.choices[0]\<close> throws a TypeError; or \<open>data.choices[0]?.message?.content\<close> is a
  string or undefined.
\<close>

datatype error_body =
    Error_body_unreadable
  | Error_body_null
  | Error_body_message "jsstring option"

datatype ok_body =
    Ok_body_unreadable jsstring
  | Ok_body_without_choices
  | Ok_body_content "jsstring option"

datatype http_outcome =
    Fetch_rejects jsstring
  | Http_error nat error_body
  | Http_ok ok_body

text \<open>
  What \<open>callOpenAI\<close> throws: an \<open>Error\<close> made by the function with the given
  message, a TypeError of the engine, or the error of \<open>fetch\<close> or \<open>response.json()\<close>
  passed on.
\<close>

datatype thrown = New_Error jsstring | Engine_TypeError | Passed_on jsstring

definition apiErrorMessage :: "nat \<Rightarrow> jsstring option \<Rightarrow> jsstring" where
  "apiErrorMessage status msg = opt_or_else msg (str ''API error: '' @ show_nat status)"

text \<open>
  \<open>callOpenAI\<close> returns the requests it has sent and its result, \<open>Inl\<close> what it
  throws.
\<close>

definition callOpenAI ::
    "turn list \<Rightarrow> settings \<Rightarrow> http_outcome \<Rightarrow> http_request list \<times> (thrown + jsstring)" where
  "callOpenAI msgs st outcome =
     (if \<not> truthy (apiKey st) then
        ([], Inl (New_Error
           (str ''API key not configured. Click the gear icon to add your OpenAI API key.'')))
      else
        ([\<lparr>req_url = str ''https://api.openai.com/v1/chat/completions'',
           req_method = str ''POST'',
           req_authorization = str ''Bearer '' @ apiKey st,
           req_body = Some (model st, msgs, maxTokens st)\<rparr>],
         (case outcome of
            Fetch_rejects e \<Rightarrow> Inl (Passed_on e)
          | Http_error status body \<Rightarrow>
              (case body of
                 Error_body_unreadable \<Rightarrow> Inl (New_Error (apiErrorMessage status None))
               | Error_body_null \<Rightarrow> Inl Engine_TypeError
               | Error_body_message msg \<Rightarrow> Inl (New_Error (apiErrorMessage status msg)))
          | Http_ok body \<Rightarrow>
              (case body of
                 Ok_body_unreadable e \<Rightarrow> Inl (Passed_on e)
               | Ok_body_without_choices \<Rightarrow> Inl Engine_TypeError
               | Ok_body_content c \<Rightarrow> Inr (opt_or_else c (str ''No response generated.''))))))"

section \<open>Settings page\<close>

definition DEFAULT_SYSTEM_PROMPT :: jsstring where
  "DEFAULT_SYSTEM_PROMPT =
     str ''You are a highly capable AI assistant analyzing the user's current browser tab. You have COMPLETE access to all page content provided below - this includes ALL text, data, tables, numbers, and information visible on the page.'' @ [10] @
     [10] @
     str ''CRITICAL INSTRUCTIONS:'' @ [10] @
     str ''1. ALWAYS analyze the ACTUAL DATA provided in the page content - never give generic advice'' @ [10] @
     str ''2. Reference SPECIFIC numbers, keywords, metrics, and data points from the page'' @ [10] @
     str ''3. If you see tables, extract and analyze the actual values'' @ [10] @
     str ''4. Quote specific text from the page when relevant'' @ [10] @
     str ''5. If asked about data that IS in the page content, provide detailed analysis WITH the actual data'' @ [10] @
     str ''6. Only say '' @ [34] @ str ''information not available'' @ [34] @ str '' if you genuinely cannot find it in the provided content'' @ [10] @
     [10] @
     str ''You are seeing the SAME content the user sees. Analyze it thoroughly.''"

text \<open>
  What the page does that can be seen from outside: a status line shown by
  \<open>showStatus(message, type)\<close>, a write of the settings to \<open>chrome.storage.local\<close>, a
  request handed to \<open>fetch\<close>.
\<close>

datatype effect =
    ShowStatus jsstring jsstring
  | StorageSet settings
  | Fetch http_request

definition invalidFormat :: jsstring where
  "invalidFormat = str ''Invalid API key format. Should start with '' @ [34] @ str ''sk-'' @ [34]"

text \<open>
  \<open>fetchModels\<close>, from the reading of the key field to the call of \<open>fetch\<close>. The
  handling of the answer (filtering, sorting and caching the model list) sends no
  further request and is not modelled.
\<close>

definition fetchModels :: "jsstring \<Rightarrow> effect list" where
  "fetchModels apiKey_field =
     (let key = js_trim apiKey_field
      in if \<not> truthy key then
           [ShowStatus (str ''Please enter an API key first'') (str ''error'')]
         else if \<not> startsWith key (str ''sk-'') then
           [ShowStatus invalidFormat (str ''error'')]
         else
           [Fetch \<lparr>req_url = str ''https://api.openai.com/v1/models'',
                   req_method = str ''GET'',
                   req_authorization = str ''Bearer '' @ key,
                   req_body = None\<rparr>])"

text \<open>
  \<open>parseInt(s, 10)\<close>: leading white space, an optional sign, then decimal digits;
  \<open>None\<close> is \<open>NaN\<close>.
\<close>

definition parseInt10 :: "jsstring \<Rightarrow> int option" where
  "parseInt10 s =
     (let t = dropWhile is_space s;
          negative = startsWith t [45];
          r = (if startsWith t [45] \<or> startsWith t [43] then drop 1 t else t);
          ds = takeWhile is_digit r
      in if ds = [] then None
         else Some ((if negative then - 1 else 1) *
                    int (foldl (\<lambda>acc c. 10 * acc + (c - 48)) 0 ds)))"

record settings_form =
  apiKey_value :: jsstring
  model_value :: jsstring
  maxTokens_value :: jsstring
  systemPrompt_value :: jsstring

text \<open>
  \<open>saveSettings\<close>; \<open>storage_error\<close> is the message of the error with which the storage
  write rejects, \<open>None\<close> when it succeeds.
\<close>

definition saveSettings :: "settings_form \<Rightarrow> jsstring option \<Rightarrow> effect list" where
  "saveSettings form storage_error =
     (let key = js_trim (apiKey_value form);
          mdl = model_value form;
          tokens = (case parseInt10 (maxTokens_value form) of
                      None \<Rightarrow> 2000
                    | Some n \<Rightarrow> if n = 0 then 2000 else n);
          prompt = js_trim (systemPrompt_value form)
      in if truthy key \<and> \<not> startsWith key (str ''sk-'') then
           [ShowStatus invalidFormat (str ''error'')]
         else if \<not> truthy key then
           [ShowStatus (str ''Please enter an API key'') (str ''error'')]
         else if \<not> truthy mdl then
           [ShowStatus (str ''Please select a model (click '' @ [34] @ str ''Load Models'' @
                          [34] @ str '' first)'') (str ''error'')]
         else if tokens < 100 \<or> tokens > 16000 then
           [ShowStatus (str ''Max tokens must be between 100 and 16000'') (str ''error'')]
         else
           (case storage_error of
              None \<Rightarrow>
                [StorageSet \<lparr>apiKey = key, model = mdl, maxTokens = tokens,
                             systemPrompt = or_else prompt DEFAULT_SYSTEM_PROMPT\<rparr>,
                 ShowStatus (str ''Settings saved successfully!'') (str ''success'')]
            | Some e \<Rightarrow>
                [ShowStatus (str ''Failed to save settings: '' @ e) (str ''error'')]))"

text \<open>Whether a run handed a request to \<open>fetch\<close>.\<close>

definition contactsNetwork :: "effect list \<Rightarrow> bool" where
  "contactsNetwork es = list_ex (\<lambda>e. case e of Fetch r \<Rightarrow> True | _ \<Rightarrow> False) es"

section \<open>The stored settings and the chat request\<close>

text \<open>
  The keys \<open>apiKey\<close>, \<open>model\<close>, \<open>maxTokens\<close> and \<open>systemPrompt\<close> of
  \<open>chrome.storage.local\<close> are written by \<open>saveSettings\<close> only, all four at once; the
  storage holds them (\<open>Some\<close>) or none of them. \<open>getSettings\<close> of the background page
  fills in its defaults for what is missing; its default prompt is the text of
  \<open>DEFAULT_SYSTEM_PROMPT\<close>.
\<close>

definition getSettings :: "settings option \<Rightarrow> settings" where
  "getSettings storage =
     (case storage of
        None \<Rightarrow> \<lparr>apiKey = [], model = str ''gpt-4o-mini'', maxTokens = 2000,
                  systemPrompt = DEFAULT_SYSTEM_PROMPT\<rparr>
      | Some st \<Rightarrow> st)"

text \<open>The storage after the effects of one run of the settings page.\<close>

fun storageAfter :: "settings option \<Rightarrow> effect list \<Rightarrow> settings option" where
  "storageAfter storage [] = storage"
| "storageAfter storage (StorageSet st # es) = storageAfter (Some st) es"
| "storageAfter storage (ShowStatus m t # es) = storageAfter storage es"
| "storageAfter storage (Fetch r # es) = storageAfter storage es"

text \<open>
  The storage after any number of runs of \<open>saveSettings\<close>, each with the content of
  the form and the outcome of its storage write, starting from the empty storage of a
  fresh installation.
\<close>

definition storedSettings :: "(settings_form \<times> jsstring option) list \<Rightarrow> settings option" where
  "storedSettings runs =
     foldl (\<lambda>storage (form, storage_error). storageAfter storage (saveSettings form storage_error))
       None runs"

text \<open>
  \<open>handleChatMessage\<close>, the only caller of \<open>callOpenAI\<close>: it reads the settings, puts the
  system message with the page content in front of the history and the new user turn,
  and calls \<open>callOpenAI\<close> with these settings. \<open>tabContent\<close> is
  \<open>currentTabData.content\<close>.
\<close>

definition systemMessage :: "settings \<Rightarrow> jsstring \<Rightarrow> turn" where
  "systemMessage st tabContent =
     \<lparr>role = str ''system'',
      content = systemPrompt st @ [10] @
        [10] @
        rule 64 @ [10] @
        str ''                 CURRENT PAGE CONTENT BELOW'' @ [10] @
        rule 64 @ [10] @
        [10] @
        tabContent @ [10] @
        [10] @
        rule 64 @ [10] @
        str ''                 END OF PAGE CONTENT'' @ [10] @
        rule 64\<rparr>"

definition handleChatMessage ::
    "jsstring \<Rightarrow> turn list \<Rightarrow> settings option \<Rightarrow> jsstring \<Rightarrow> http_outcome \<Rightarrow>
     http_request list \<times> (thrown + jsstring)" where
  "handleChatMessage userMessage history storage tabContent outcome =
     (let st = getSettings storage;
          msgs = systemMessage st tabContent # history @
                   [\<lparr>role = str ''user'', content = userMessage\<rparr>]
      in callOpenAI msgs st outcome)"

section \<open>Example inputs\<close>

text \<open>Concrete states, pages and settings at which the theorems below are evaluated.\<close>

definition frozen_clock :: "nat \<Rightarrow> nat \<Rightarrow> nat" where
  "frozen_clock t k = t"

definition user_turn :: "jsstring \<Rightarrow> turn" where
  "user_turn c = \<lparr>role = str ''user'', content = c\<rparr>"

definition example_chat :: chat where
  "example_chat = \<lparr>chat_id = str ''chat-5'', title = str ''a'',
                    messages = [user_turn (str ''a'')], createdAt = 5, updatedAt = 5\<rparr>"

definition example_panel :: "turn list \<Rightarrow> jsstring option \<Rightarrow> chat list \<Rightarrow> panel" where
  "example_panel h cid cs =
     \<lparr>conversationHistory = h, isLoading = False, hasApiKey = True, currentFile = None,
      currentChatId = cid, savedChats = cs, chatsList = No_chats\<rparr>"

definition example_env :: send_env where
  "example_env = \<lparr>input_value = str ''hi'', settings_apiKey = str ''sk-test'',
                   chat_answer = Chat_success (str ''yo''), clock = frozen_clock 6,
                   storage_ok = True\<rparr>"

definition example_table :: table_data where
  "example_table = \<lparr>caption = Some [], headers = [str ''Name'', str ''Price''],
                     rows = [[str ''Widget'', str ''$10'']]\<rparr>"

definition example_page :: page_data where
  "example_page =
     \<lparr>url = str ''https://shop.example/'', page_title = str ''Shop'', metaDescription = [],
      selectedText = [], headings = [], tables = [example_table], metrics = [],
      chartData = [], dataAttributes = [], forms = [], lists = [], mainContent = [],
      allVisibleText = [], links = []\<rparr>"

definition example_form :: "jsstring \<Rightarrow> settings_form" where
  "example_form k = \<lparr>apiKey_value = k, model_value = str ''gpt-4o-mini'',
                      maxTokens_value = str ''2000'', systemPrompt_value = []\<rparr>"

text \<open>
  A visible form with one password field that has no \<open>aria-label\<close>, placeholder or
  name, is named by no \<open>label[for]\<close> and sits inside \<open><label>Password ...</label>\<close>;
  \<open>typed\<close> is what the user has typed into it.
\<close>

definition password_field :: "jsstring \<Rightarrow> field_element" where
  "password_field typed =
     \<lparr>el_type = str ''password'', el_tagName = str ''INPUT'', el_ariaLabel = None,
      el_placeholder = [], el_name = [], el_labelQuery = Query_result None,
      el_closestLabel = Some (str ''Password''), el_value = typed, el_checked = False,
      el_selectedOptionText = None\<rparr>"

definition login_form :: "jsstring \<Rightarrow> form_element" where
  "login_form typed = \<lparr>el_visible = True, el_action = [], el_fields = [password_field typed]\<rparr>"

section \<open>Properties\<close>

subsection \<open>Strings\<close>

lemma startsWith_append: "startsWith (p @ b) p"
  by (induction p) auto

lemma startsWith_Nil [simp]: "startsWith [] p = (p = [])"
  by (cases p) auto

lemma startsWith_appendI: "startsWith a p \<Longrightarrow> startsWith (a @ b) p"
  by (induction a p rule: startsWith.induct) auto

lemma js_includes_startsWith: "startsWith s p \<Longrightarrow> js_includes s p"
  by (cases s) auto

lemma js_includes_prefix: "js_includes (p @ b) p"
  by (rule js_includes_startsWith) (rule startsWith_append)

lemma js_includes_appendI2: "js_includes b p \<Longrightarrow> js_includes (a @ b) p"
  by (induction a) auto

lemma js_includes_appendI1: "js_includes a p \<Longrightarrow> js_includes (a @ b) p"
proof (induction a)
  case Nil
  then have "p = []" by simp
  then show ?case by (simp add: js_includes_startsWith)
next
  case (Cons x a)
  from Cons.prems have "startsWith (x # a) p \<or> js_includes a p" by simp
  then show ?case
  proof
    assume "startsWith (x # a) p"
    then have "startsWith ((x # a) @ b) p" by (rule startsWith_appendI)
    then show ?thesis by simp
  next
    assume "js_includes a p"
    then have "js_includes (a @ b) p" by (rule Cons.IH)
    then show ?thesis by simp
  qed
qed

text \<open>\<open>js_includes s p\<close> holds exactly when \<open>p\<close> occurs in \<open>s\<close>.\<close>

lemma startsWith_iff: "startsWith s p \<longleftrightarrow> (\<exists>b. s = p @ b)"
  by (induction s p rule: startsWith.induct) auto

lemma js_includes_iff: "js_includes s p \<longleftrightarrow> (\<exists>a b. s = a @ p @ b)"
proof (induction s)
  case Nil
  then show ?case by auto
next
  case (Cons c cs)
  show ?case
  proof
    assume "js_includes (c # cs) p"
    then consider "startsWith (c # cs) p" | "js_includes cs p" by auto
    then show "\<exists>a b. c # cs = a @ p @ b"
    proof cases
      case 1
      then obtain b where "c # cs = p @ b" by (auto simp: startsWith_iff)
      then have "c # cs = [] @ p @ b" by simp
      then show ?thesis by blast
    next
      case 2
      with Cons.IH obtain a b where "cs = a @ p @ b" by blast
      then have "c # cs = (c # a) @ p @ b" by simp
      then show ?thesis by blast
    qed
  next
    assume "\<exists>a b. c # cs = a @ p @ b"
    then obtain a b where ab: "c # cs = a @ p @ b" by blast
    show "js_includes (c # cs) p"
    proof (cases a)
      case Nil
      with ab have "startsWith (c # cs) p" by (auto simp: startsWith_iff)
      then show ?thesis by simp
    next
      case tail: (Cons x a')
      with ab have "cs = a' @ p @ b" by simp
      with Cons.IH have "js_includes cs p" by blast
      then show ?thesis by simp
    qed
  qed
qed

subsection \<open>The reveal animation and the two formatters\<close>

lemma typeChar_eq:
  "typeChar rawText bubble chars =
     (if chars = [] then bubble else formatMessageIncremental (rawText @ chars))"
  by (induction chars arbitrary: rawText bubble) auto

lemma formatMessage_empty: "formatMessage [] = []"
  by code_simp

text \<open>
  C1. For every reply, the incremental formatter applied to the whole text returns the
  same string as the full formatter, and the bubble that the last step of the reveal
  leaves (the first component of \<open>typeMessage\<close>) equals the final content set by the
  full pass (the second component).
\<close>

theorem incremental_equals_full:
  "formatMessageIncremental reply = formatMessage reply \<and>
   fst (typeMessage reply) = snd (typeMessage reply)"
proof -
  have eq: "formatMessageIncremental reply = formatMessage reply"
    by (simp add: formatMessageIncremental_def formatMessage_def)
  show ?thesis
  proof (cases "reply = []")
    case True
    then show ?thesis using eq by (simp add: typeMessage_def formatMessage_empty)
  next
    case False
    then show ?thesis using eq by (simp add: typeMessage_def typeChar_eq)
  qed
qed

subsection \<open>History trimming\<close>

lemma length_trimHistory: "length (trimHistory h) \<le> 20"
  by (simp add: trimHistory_def slice_last_def)

lemma suffix_trimHistory: "suffix (trimHistory h) h"
  by (simp add: trimHistory_def slice_last_def suffix_drop)

lemma renderChatsList_fields [simp]:
  "conversationHistory (renderChatsList s) = conversationHistory s"
  "currentChatId (renderChatsList s) = currentChatId s"
  "set (savedChats (renderChatsList s)) = set (savedChats s)"
  "mset (savedChats (renderChatsList s)) = mset (savedChats s)"
  by (simp_all add: renderChatsList_def sortChats_def Let_def)

lemma saveCurrentChat_history [simp]:
  "conversationHistory (saveCurrentChat now ok s) = conversationHistory s"
  by (simp add: saveCurrentChat_def createChat_def Let_def split: option.split)

text \<open>
  C2. When \<open>sendMessage\<close> runs to a successful answer (there is something to send, no
  request is pending, a key is known, the background page answers with success), the
  history it leaves has at most 20 turns and is a suffix of the old history followed by
  the new user turn and the new assistant turn: what is dropped is dropped from the
  old end.
\<close>

theorem sendMessage_history_bounded:
  assumes "truthy (js_trim (input_value env)) \<or> currentFile s \<noteq> None"
    and "\<not> isLoading s"
    and "hasApiKey s \<or> truthy (settings_apiKey env)"
    and "chat_answer env = Chat_success response"
  shows "length (conversationHistory (sendMessage env s)) \<le> 20 \<and>
         suffix (conversationHistory (sendMessage env s))
           (pushExchange (buildUserContent (js_trim (input_value env)) (currentFile s))
              response (conversationHistory s))"
  using assms
  by (auto simp: sendMessage_def Let_def length_trimHistory suffix_trimHistory)

theorem sendMessage_history_bounded_witness:
  "(truthy (js_trim (input_value example_env)) \<or>
      currentFile (example_panel (replicate 19 (user_turn (str ''q''))) None []) \<noteq> None) \<and>
   \<not> isLoading (example_panel (replicate 19 (user_turn (str ''q''))) None []) \<and>
   (hasApiKey (example_panel (replicate 19 (user_turn (str ''q''))) None []) \<or>
      truthy (settings_apiKey example_env)) \<and>
   chat_answer example_env = Chat_success (str ''yo'') \<and>
   length (conversationHistory
      (sendMessage example_env (example_panel (replicate 19 (user_turn (str ''q''))) None [])))
     \<le> 20 \<and>
   suffix (conversationHistory
      (sendMessage example_env (example_panel (replicate 19 (user_turn (str ''q''))) None [])))
     (pushExchange (buildUserContent (js_trim (input_value example_env))
          (currentFile (example_panel (replicate 19 (user_turn (str ''q''))) None [])))
        (str ''yo'') (replicate 19 (user_turn (str ''q''))))"
proof -
  let ?s = "example_panel (replicate 19 (user_turn (str ''q''))) None []"
  have a: "truthy (js_trim (input_value example_env)) \<or> currentFile ?s \<noteq> None"
    by (simp add: example_env_def truthy_def js_trim_def is_space_def str_def)
  have b: "\<not> isLoading ?s" by (simp add: example_panel_def)
  have c: "hasApiKey ?s \<or> truthy (settings_apiKey example_env)" by (simp add: example_panel_def)
  have d: "chat_answer example_env = Chat_success (str ''yo'')" by (simp add: example_env_def)
  have e: "conversationHistory ?s = replicate 19 (user_turn (str ''q''))"
    by (simp add: example_panel_def)
  from sendMessage_history_bounded [OF a b c d] a b c d e show ?thesis by simp
qed

subsection \<open>Saved threads\<close>

lemma set_sortChats [simp]: "set (sortChats cs) = set cs"
  by (simp add: sortChats_def)

lemma mset_sortChats [simp]: "mset (sortChats cs) = mset cs"
  by (simp add: sortChats_def)

lemma sortChats_newest_first:
  "sorted_wrt (\<lambda>a b. updatedAt b \<le> updatedAt a) (sortChats cs)"
proof -
  have "sorted (map (\<lambda>c. - int (updatedAt c)) (sortChats cs))"
    unfolding sortChats_def by (rule sorted_sort_key)
  then show ?thesis by (simp add: sorted_map)
qed

lemma findIndex_Some:
  "findIndex P xs = Some i \<Longrightarrow> i < length xs \<and> P (xs ! i)"
  by (induction xs arbitrary: i) (auto split: if_splits)

lemma findIndex_None:
  "findIndex P xs = None \<Longrightarrow> \<forall>x \<in> set xs. \<not> P x"
  by (induction xs) (auto split: if_splits)

lemma map_chat_id_update:
  "i < length cs \<Longrightarrow>
   map chat_id (cs[i := (cs ! i)\<lparr>messages := h, updatedAt := t\<rparr>]) = map chat_id cs"
  by (simp add: map_update list_update_same_conv)

lemma count_ids_sortChats [simp]:
  "count_list (map chat_id (sortChats cs)) cid = count_list (map chat_id cs) cid"
proof -
  have "mset (map chat_id (sortChats cs)) = mset (map chat_id cs)" by simp
  then have "count (mset (map chat_id (sortChats cs))) cid = count (mset (map chat_id cs)) cid"
    by simp
  then show ?thesis by (simp only: count_mset)
qed

lemma find_unique:
  "c \<in> set cs \<Longrightarrow> count_list (map chat_id cs) (chat_id c) \<le> 1 \<Longrightarrow>
   find (\<lambda>x. chat_id x = chat_id c) cs = Some c"
proof (induction cs)
  case Nil
  then show ?case by simp
next
  case (Cons x xs)
  show ?case
  proof (cases "chat_id x = chat_id c")
    case True
    with Cons.prems(2) have "count_list (map chat_id xs) (chat_id c) = 0" by simp
    then have "chat_id c \<notin> set (map chat_id xs)" by (simp add: count_list_0_iff)
    then have "c \<notin> set xs" by auto
    with Cons.prems(1) True show ?thesis by simp
  next
    case False
    with Cons show ?thesis by auto
  qed
qed

lemma find_unique_rendered:
  assumes "c \<in> set (savedChats s)"
    and "count_list (map chat_id (savedChats s)) (chat_id c) \<le> 1"
  shows "find (\<lambda>x. chat_id x = chat_id c)
           (savedChats (if ok then renderChatsList s else s)) = Some c"
proof (cases "ok \<and> savedChats s \<noteq> []")
  case True
  then have "savedChats (if ok then renderChatsList s else s) = sortChats (savedChats s)"
    by (simp add: renderChatsList_def Let_def)
  moreover have "find (\<lambda>x. chat_id x = chat_id c) (sortChats (savedChats s)) = Some c"
    using assms by (intro find_unique) simp_all
  ultimately show ?thesis by simp
next
  case False
  then have "savedChats (if ok then renderChatsList s else s) = savedChats s"
    by (auto simp: renderChatsList_def Let_def)
  then show ?thesis using assms by (simp add: find_unique)
qed

lemma save_new:
  assumes h: "conversationHistory s \<noteq> []"
    and n: "startsNewThread s"
    and f: "str ''chat-'' @ show_nat (now 0) \<notin> chat_id ` set (savedChats s)"
  shows "currentChatId (saveCurrentChat now ok s) = Some (str ''chat-'' @ show_nat (now 0)) \<and>
         map_option messages (find (\<lambda>c. chat_id c = str ''chat-'' @ show_nat (now 0))
            (savedChats (saveCurrentChat now ok s))) = Some (conversationHistory s)"
proof -
  let ?id = "str ''chat-'' @ show_nat (now 0)"
  let ?s1 = "createChat now (chatTitle (conversationHistory s)) s"
  let ?c = "last (savedChats ?s1)"
  have eq: "saveCurrentChat now ok s = (if ok then renderChatsList ?s1 else ?s1)"
    using h n by (auto simp: saveCurrentChat_def Let_def split: option.splits)
  have cur: "currentChatId ?s1 = Some ?id" by (simp add: createChat_def)
  have cid: "chat_id ?c = ?id" and cm: "messages ?c = conversationHistory s"
    by (simp_all add: createChat_def)
  from f have "count_list (map chat_id (savedChats s)) ?id = 0"
    by (simp add: count_list_0_iff)
  then have one: "count_list (map chat_id (savedChats ?s1)) (chat_id ?c) \<le> 1"
    by (simp add: createChat_def)
  have mem: "?c \<in> set (savedChats ?s1)" by (simp add: createChat_def)
  have "find (\<lambda>x. chat_id x = chat_id ?c) (savedChats (if ok then renderChatsList ?s1 else ?s1))
          = Some ?c"
    using mem one by (rule find_unique_rendered)
  then show ?thesis unfolding eq using cur cid cm by simp
qed

lemma save_update:
  assumes h: "conversationHistory s \<noteq> []"
    and c: "currentChatId s = Some cid" "truthy cid"
    and u: "count_list (map chat_id (savedChats s)) cid \<le> 1"
    and i: "findIndex (\<lambda>c. chat_id c = cid) (savedChats s) = Some i"
  shows "currentChatId (saveCurrentChat now ok s) = Some cid \<and>
         map_option messages (find (\<lambda>c. chat_id c = cid)
            (savedChats (saveCurrentChat now ok s))) = Some (conversationHistory s)"
proof -
  let ?c = "(savedChats s ! i)\<lparr>messages := conversationHistory s, updatedAt := now 0\<rparr>"
  let ?cs = "(savedChats s)[i := ?c]"
  let ?s1 = "s\<lparr>savedChats := ?cs\<rparr>"
  from i have il: "i < length (savedChats s)" and ic: "chat_id (savedChats s ! i) = cid"
    using findIndex_Some by fastforce+
  have eq: "saveCurrentChat now ok s = (if ok then renderChatsList ?s1 else ?s1)"
    using h c i by (auto simp: saveCurrentChat_def startsNewThread_def Let_def)
  have cc: "chat_id ?c = cid" using ic by simp
  have one: "count_list (map chat_id (savedChats ?s1)) (chat_id ?c) \<le> 1"
    using u il cc by (simp add: map_chat_id_update)
  have mem: "?c \<in> set (savedChats ?s1)" using il by (simp add: set_update_memI)
  have "find (\<lambda>x. chat_id x = chat_id ?c)
      (savedChats (if ok then renderChatsList ?s1 else ?s1)) = Some ?c"
    using mem one by (rule find_unique_rendered)
  with cc have "find (\<lambda>x. chat_id x = cid)
      (savedChats (if ok then renderChatsList ?s1 else ?s1)) = Some ?c"
    by simp
  then show ?thesis unfolding eq using c by (auto simp: renderChatsList_def Let_def)
qed

text \<open>
  C3, as amended. Let the history be non-empty and let the identifier under which the
  conversation is stored name exactly one saved thread after the save: when a new
  thread is created, no saved thread has the identifier \<open>chat-<Date.now()>\<close> that it
  gets; otherwise exactly one saved thread has the current identifier. Then after
  \<open>saveCurrentChat\<close> the current identifier is set, the saved thread found under it
  holds the history that was in memory, and \<open>loadChat\<close> with that identifier yields
  this history and makes the identifier current, whatever conversation \<open>h'\<close> and
  current identifier \<open>c'\<close> the panel has by then (a new chat, another thread), as well
  as straight after the save.
\<close>

theorem save_then_load_roundtrip:
  assumes h: "conversationHistory s \<noteq> []"
    and f: "startsNewThread s \<longrightarrow>
              str ''chat-'' @ show_nat (now 0) \<notin> chat_id ` set (savedChats s)"
    and u: "\<not> startsNewThread s \<longrightarrow>
              (\<forall>cid. currentChatId s = Some cid \<longrightarrow>
                 count_list (map chat_id (savedChats s)) cid = 1)"
  shows "\<exists>cid. currentChatId (saveCurrentChat now ok s) = Some cid \<and>
           map_option messages
             (find (\<lambda>c. chat_id c = cid) (savedChats (saveCurrentChat now ok s)))
             = Some (conversationHistory s) \<and>
           conversationHistory (loadChat cid (saveCurrentChat now ok s)) = conversationHistory s \<and>
           conversationHistory
             (loadChat cid ((saveCurrentChat now ok s)
                \<lparr>currentChatId := c', conversationHistory := h'\<rparr>)) = conversationHistory s \<and>
           currentChatId
             (loadChat cid ((saveCurrentChat now ok s)
                \<lparr>currentChatId := c', conversationHistory := h'\<rparr>)) = Some cid"
proof -
  have stored: "\<exists>cid. currentChatId (saveCurrentChat now ok s) = Some cid \<and>
      map_option messages
        (find (\<lambda>c. chat_id c = cid) (savedChats (saveCurrentChat now ok s)))
        = Some (conversationHistory s)"
  proof (cases "startsNewThread s")
    case True
    with f have "str ''chat-'' @ show_nat (now 0) \<notin> chat_id ` set (savedChats s)" by simp
    with save_new [of s now ok] h True show ?thesis by blast
  next
    case False
    then obtain cid where c: "currentChatId s = Some cid" "truthy cid"
      by (auto simp: startsNewThread_def split: option.splits)
    with u False have one: "count_list (map chat_id (savedChats s)) cid = 1" by simp
    have "findIndex (\<lambda>c. chat_id c = cid) (savedChats s) \<noteq> None"
    proof
      assume "findIndex (\<lambda>c. chat_id c = cid) (savedChats s) = None"
      then have "cid \<notin> set (map chat_id (savedChats s))"
        by (auto dest: findIndex_None)
      then have "count_list (map chat_id (savedChats s)) cid = 0"
        by (simp add: count_list_0_iff)
      with one show False by simp
    qed
    then obtain i where "findIndex (\<lambda>c. chat_id c = cid) (savedChats s) = Some i" by blast
    with save_update [of s cid i now ok] h c one show ?thesis by simp
  qed
  then obtain cid where cur: "currentChatId (saveCurrentChat now ok s) = Some cid"
    and found: "map_option messages
        (find (\<lambda>c. chat_id c = cid) (savedChats (saveCurrentChat now ok s)))
        = Some (conversationHistory s)"
    by blast
  from found have "conversationHistory (loadChat cid (saveCurrentChat now ok s))
      = conversationHistory s"
    by (auto simp: loadChat_def split: option.splits)
  moreover from found have "conversationHistory
      (loadChat cid ((saveCurrentChat now ok s)
         \<lparr>currentChatId := c', conversationHistory := h'\<rparr>)) = conversationHistory s \<and>
    currentChatId
      (loadChat cid ((saveCurrentChat now ok s)
         \<lparr>currentChatId := c', conversationHistory := h'\<rparr>)) = Some cid"
    by (auto simp: loadChat_def split: option.splits)
  ultimately show ?thesis using cur found by blast
qed

text \<open>
  Both cases at concrete states, each holding the saved thread \<open>chat-5\<close>, with the load
  made from a new chat (empty conversation, no current thread): no thread is current
  and the clock reads 6, so that the thread \<open>chat-6\<close> is created; the thread \<open>chat-5\<close>
  is current and is updated.
\<close>

theorem save_then_load_roundtrip_witness:
  "conversationHistory (example_panel [user_turn (str ''b'')] None [example_chat]) \<noteq> [] \<and>
   startsNewThread (example_panel [user_turn (str ''b'')] None [example_chat]) \<and>
   str ''chat-'' @ show_nat (frozen_clock 6 0)
     \<notin> chat_id ` set (savedChats (example_panel [user_turn (str ''b'')] None [example_chat])) \<and>
   currentChatId (saveCurrentChat (frozen_clock 6) True
       (example_panel [user_turn (str ''b'')] None [example_chat])) = Some (str ''chat-6'') \<and>
   conversationHistory (loadChat (str ''chat-6'') (startNewChat (saveCurrentChat (frozen_clock 6) True
       (example_panel [user_turn (str ''b'')] None [example_chat])))) = [user_turn (str ''b'')] \<and>
   \<not> startsNewThread
       (example_panel [user_turn (str ''b'')] (Some (str ''chat-5'')) [example_chat]) \<and>
   count_list (map chat_id (savedChats
       (example_panel [user_turn (str ''b'')] (Some (str ''chat-5'')) [example_chat])))
     (str ''chat-5'') = 1 \<and>
   currentChatId (saveCurrentChat (frozen_clock 6) True
       (example_panel [user_turn (str ''b'')] (Some (str ''chat-5'')) [example_chat]))
     = Some (str ''chat-5'') \<and>
   conversationHistory (loadChat (str ''chat-5'') (startNewChat (saveCurrentChat (frozen_clock 6) True
       (example_panel [user_turn (str ''b'')] (Some (str ''chat-5'')) [example_chat]))))
     = [user_turn (str ''b'')]"
proof -
  let ?s = "example_panel [user_turn (str ''b'')] None [example_chat]"
  let ?t = "example_panel [user_turn (str ''b'')] (Some (str ''chat-5'')) [example_chat]"
  have h: "conversationHistory ?s \<noteq> []" by (simp add: example_panel_def)
  have n: "startsNewThread ?s" by (simp add: startsNewThread_def example_panel_def)
  have f: "str ''chat-'' @ show_nat (frozen_clock 6 0) \<notin> chat_id ` set (savedChats ?s)"
    by (simp add: example_panel_def example_chat_def frozen_clock_def show_nat.simps str_def)
  have cur: "currentChatId (saveCurrentChat (frozen_clock 6) True ?s) = Some (str ''chat-6'')"
    by (simp add: saveCurrentChat_def createChat_def example_panel_def frozen_clock_def
          show_nat.simps str_def Let_def)
  have hist: "conversationHistory ?s = [user_turn (str ''b'')]" by (simp add: example_panel_def)
  from save_then_load_roundtrip [where s = ?s and now = "frozen_clock 6" and ok = True
      and h' = "[]" and c' = None] h n f cur hist
  have new_thread: "conversationHistory (loadChat (str ''chat-6'')
      (startNewChat (saveCurrentChat (frozen_clock 6) True ?s))) = [user_turn (str ''b'')]"
    by (simp add: startNewChat_def)
  have h': "conversationHistory ?t \<noteq> []" by (simp add: example_panel_def)
  have n': "\<not> startsNewThread ?t"
    by (simp add: startsNewThread_def example_panel_def truthy_def str_def)
  have cid': "currentChatId ?t = Some (str ''chat-5'')" by (simp add: example_panel_def)
  have u': "count_list (map chat_id (savedChats ?t)) (str ''chat-5'') = 1"
    by (simp add: example_panel_def example_chat_def)
  have cur': "currentChatId (saveCurrentChat (frozen_clock 6) True ?t) = Some (str ''chat-5'')"
    by (simp add: saveCurrentChat_def startsNewThread_def example_panel_def example_chat_def
          truthy_def str_def Let_def)
  have hist': "conversationHistory ?t = [user_turn (str ''b'')]" by (simp add: example_panel_def)
  from save_then_load_roundtrip [where s = ?t and now = "frozen_clock 6" and ok = True
      and h' = "[]" and c' = None] h' n' cid' u' cur' hist'
  have old_thread: "conversationHistory (loadChat (str ''chat-5'')
      (startNewChat (saveCurrentChat (frozen_clock 6) True ?t))) = [user_turn (str ''b'')]"
    by (simp add: startNewChat_def)
  from h n f cur new_thread n' u' cur' old_thread show ?thesis by simp
qed

text \<open>
  C3, counterexample. The claim as stated fails when the current identifier names no
  saved thread. The state is the one that \<open>deleteChat\<close> leaves when the current thread
  \<open>chat-5\<close> is deleted and the storage write rejects: the conversation is the turn
  \<open>b\<close>, \<open>chat-5\<close> is current and no thread is saved. \<open>saveCurrentChat\<close> finds no thread
  to update and stores nothing; after a new chat, loading \<open>chat-5\<close> finds nothing and
  the conversation stays empty.
\<close>

theorem roundtrip_counterexample:
  "conversationHistory (deleteChat (str ''chat-5'') False
       (example_panel [user_turn (str ''b'')] (Some (str ''chat-5'')) [example_chat]))
     = [user_turn (str ''b'')] \<and>
   currentChatId (saveCurrentChat (frozen_clock 6) True (deleteChat (str ''chat-5'') False
       (example_panel [user_turn (str ''b'')] (Some (str ''chat-5'')) [example_chat])))
     = Some (str ''chat-5'') \<and>
   savedChats (saveCurrentChat (frozen_clock 6) True (deleteChat (str ''chat-5'') False
       (example_panel [user_turn (str ''b'')] (Some (str ''chat-5'')) [example_chat]))) = [] \<and>
   conversationHistory (loadChat (str ''chat-5'')
       (startNewChat (saveCurrentChat (frozen_clock 6) True (deleteChat (str ''chat-5'') False
          (example_panel [user_turn (str ''b'')] (Some (str ''chat-5'')) [example_chat])))))
     = []"
  by (simp add: saveCurrentChat_def startsNewThread_def loadChat_def startNewChat_def
        deleteChat_def renderChatsList_def example_panel_def example_chat_def user_turn_def
        str_def truthy_def Let_def)

text \<open>
  Why the identifier must name no second thread: the panel holds the thread \<open>chat-5\<close>
  with the turn \<open>a\<close>, no thread is current, the conversation is the turn \<open>b\<close> and the
  clock reads 5 (a clock that was set back). The save appends a second thread
  \<open>chat-5\<close>, and loading \<open>chat-5\<close> finds the older one.
\<close>

lemma identifier_collision_example:
  "currentChatId (saveCurrentChat (frozen_clock 5) True
       (example_panel [user_turn (str ''b'')] None [example_chat])) = Some (str ''chat-5'') \<and>
   conversationHistory (loadChat (str ''chat-5'') (saveCurrentChat (frozen_clock 5) True
       (example_panel [user_turn (str ''b'')] None [example_chat]))) = [user_turn (str ''a'')] \<and>
   conversationHistory (example_panel [user_turn (str ''b'')] None [example_chat])
     = [user_turn (str ''b'')] \<and>
   user_turn (str ''a'') \<noteq> user_turn (str ''b'')"
  by (simp add: saveCurrentChat_def createChat_def startsNewThread_def loadChat_def
        renderChatsList_def sortChats_def example_panel_def example_chat_def user_turn_def
        frozen_clock_def show_nat.simps str_def chatTitle_def or_else_def truthy_def Let_def)

text \<open>
  C6. What \<open>renderChatsList\<close> shows is either the notice, when no thread is saved, or
  the saved threads, each once, in non-increasing order of \<open>updatedAt\<close>.
\<close>

theorem renderChatsList_newest_first:
  "(case chatsList (renderChatsList s) of
      No_chats \<Rightarrow> savedChats s = []
    | Chat_items shown \<Rightarrow>
        sorted_wrt (\<lambda>a b. updatedAt b \<le> updatedAt a) shown \<and> mset shown = mset (savedChats s))"
  by (simp add: renderChatsList_def Let_def sortChats_newest_first)

text \<open>
  C9, as amended. \<open>deleteChat\<close> leaves exactly the saved threads whose identifier
  differs from the given one, each unchanged. If the given identifier is not the current
  one, the conversation and the current identifier are unchanged; if it is the current
  one and the storage write has succeeded, the conversation is emptied and the current
  identifier cleared.
\<close>

theorem deleteChat_frame:
  "mset (savedChats (deleteChat chatId ok s)) =
     mset (filter (\<lambda>c. chat_id c \<noteq> chatId) (savedChats s)) \<and>
   (currentChatId s \<noteq> Some chatId \<longrightarrow>
      conversationHistory (deleteChat chatId ok s) = conversationHistory s \<and>
      currentChatId (deleteChat chatId ok s) = currentChatId s) \<and>
   (currentChatId s = Some chatId \<and> ok \<longrightarrow>
      conversationHistory (deleteChat chatId ok s) = [] \<and>
      currentChatId (deleteChat chatId ok s) = None)"
  by (simp add: deleteChat_def Let_def startNewChat_def)

text \<open>
  Both cases at concrete states: the current thread \<open>chat-5\<close> is deleted and the write
  succeeds; the thread \<open>chat-5\<close> is deleted while the thread \<open>chat-7\<close> is current.
\<close>

theorem deleteChat_frame_witness:
  "currentChatId (example_panel [user_turn (str ''b'')] (Some (str ''chat-5'')) [example_chat])
     = Some (str ''chat-5'') \<and>
   conversationHistory (deleteChat (str ''chat-5'') True
       (example_panel [user_turn (str ''b'')] (Some (str ''chat-5'')) [example_chat])) = [] \<and>
   currentChatId (deleteChat (str ''chat-5'') True
       (example_panel [user_turn (str ''b'')] (Some (str ''chat-5'')) [example_chat])) = None \<and>
   currentChatId (example_panel [user_turn (str ''b'')] (Some (str ''chat-7'')) [example_chat])
     \<noteq> Some (str ''chat-5'') \<and>
   conversationHistory (deleteChat (str ''chat-5'') True
       (example_panel [user_turn (str ''b'')] (Some (str ''chat-7'')) [example_chat]))
     = [user_turn (str ''b'')] \<and>
   currentChatId (deleteChat (str ''chat-5'') True
       (example_panel [user_turn (str ''b'')] (Some (str ''chat-7'')) [example_chat]))
     = Some (str ''chat-7'')"
proof -
  let ?a = "example_panel [user_turn (str ''b'')] (Some (str ''chat-5'')) [example_chat]"
  let ?b = "example_panel [user_turn (str ''b'')] (Some (str ''chat-7'')) [example_chat]"
  have a: "currentChatId ?a = Some (str ''chat-5'')" by (simp add: example_panel_def)
  have b: "currentChatId ?b \<noteq> Some (str ''chat-5'')" by (simp add: example_panel_def str_def)
  have b1: "currentChatId ?b = Some (str ''chat-7'')"
    and b2: "conversationHistory ?b = [user_turn (str ''b'')]"
    by (simp_all add: example_panel_def)
  from deleteChat_frame [of "str ''chat-5''" True ?a] a
  have ra: "conversationHistory (deleteChat (str ''chat-5'') True ?a) = [] \<and>
            currentChatId (deleteChat (str ''chat-5'') True ?a) = None"
    by simp
  from deleteChat_frame [of "str ''chat-5''" True ?b] b
  have rb: "conversationHistory (deleteChat (str ''chat-5'') True ?b) = conversationHistory ?b \<and>
            currentChatId (deleteChat (str ''chat-5'') True ?b) = currentChatId ?b"
    by blast
  from a b ra rb b1 b2 show ?thesis by simp
qed

text \<open>
  C9, counterexample. The claim as stated fails when the storage write rejects: the
  thread \<open>chat-5\<close> is current, it is deleted, the write fails; the thread is gone from
  the list, yet the conversation and the current identifier stay.
\<close>

theorem deleteChat_counterexample:
  "currentChatId (example_panel [user_turn (str ''b'')] (Some (str ''chat-5'')) [example_chat])
     = Some (str ''chat-5'') \<and>
   savedChats (deleteChat (str ''chat-5'') False
       (example_panel [user_turn (str ''b'')] (Some (str ''chat-5'')) [example_chat])) = [] \<and>
   conversationHistory (deleteChat (str ''chat-5'') False
       (example_panel [user_turn (str ''b'')] (Some (str ''chat-5'')) [example_chat])) \<noteq> [] \<and>
   currentChatId (deleteChat (str ''chat-5'') False
       (example_panel [user_turn (str ''b'')] (Some (str ''chat-5'')) [example_chat])) \<noteq> None"
  by (simp add: deleteChat_def example_panel_def example_chat_def Let_def str_def)

subsection \<open>The context blob\<close>

lemma mainContentSection_placeholder:
  "js_includes (mainContentSection (d\<lparr>mainContent := []\<rparr>)) (str ''No content extracted'')"
  unfolding mainContentSection_def
  by (simp add: or_else_def truthy_def js_includes_appendI2 js_includes_prefix)

lemma pageHeader_nonempty: "pageHeader d \<noteq> []"
  by (simp add: pageHeader_def rule_def)

lemma includes_mainContentSection:
  assumes "js_includes (mainContentSection d) p"
  shows "js_includes (formatContentForAI (Some d)) p"
proof -
  have "js_includes (mainContentSection d @ allVisibleTextSection d @ linksSection d) p"
    using assms by (rule js_includes_appendI1)
  then have "js_includes (pageHeader d @ selectedTextSection d @ headingsSection d @
          tablesSection d @ metricsSection d @ chartSection d @
          dataAttributesSection d @ formsSection d @ listsSection d @ mainContentSection d @
          allVisibleTextSection d @ linksSection d) p"
    by (simp add: js_includes_appendI2)
  then show ?thesis by (simp add: formatContentForAI_def)
qed

lemma includes_tablesSection:
  assumes "js_includes (tablesSection d) p"
  shows "js_includes (formatContentForAI (Some d)) p"
proof -
  have "js_includes (tablesSection d @ metricsSection d @ chartSection d @
          dataAttributesSection d @ formsSection d @ listsSection d @ mainContentSection d @
          allVisibleTextSection d @ linksSection d) p"
    using assms by (rule js_includes_appendI1)
  then have "js_includes (pageHeader d @ selectedTextSection d @ headingsSection d @
          tablesSection d @ metricsSection d @ chartSection d @
          dataAttributesSection d @ formsSection d @ listsSection d @ mainContentSection d @
          allVisibleTextSection d @ linksSection d) p"
    by (simp add: js_includes_appendI2)
  then show ?thesis by (simp add: formatContentForAI_def)
qed

text \<open>
  C5, as amended. The formatted context is never empty. When extraction returned
  nothing it is the text \<open>Unable to extract page content.\<close>; when it returned a record
  without main content, whatever its other sections, the context contains the
  placeholder \<open>No content extracted\<close>.
\<close>

theorem formatContentForAI_placeholder:
  "formatContentForAI data \<noteq> [] \<and>
   formatContentForAI None = str ''Unable to extract page content.'' \<and>
   js_includes (formatContentForAI (Some (d\<lparr>mainContent := []\<rparr>))) (str ''No content extracted'')"
proof -
  have "formatContentForAI data \<noteq> []"
    by (cases data) (simp_all add: formatContentForAI_def pageHeader_nonempty str_def)
  moreover have "formatContentForAI None = str ''Unable to extract page content.''"
    by (simp add: formatContentForAI_def)
  moreover have "js_includes (formatContentForAI (Some (d\<lparr>mainContent := []\<rparr>)))
      (str ''No content extracted'')"
    by (rule includes_mainContentSection) (rule mainContentSection_placeholder)
  ultimately show ?thesis by simp
qed

text \<open>
  C5, counterexample. The claim as stated fails when extraction returned nothing: the result is another
  text, which does not contain the placeholder in either spelling.
\<close>

theorem formatContentForAI_null_counterexample:
  "formatContentForAI None = str ''Unable to extract page content.'' \<and>
   \<not> js_includes (formatContentForAI None) (str ''No content extracted'') \<and>
   \<not> js_includes (toLowerCase (formatContentForAI None)) (str ''no content extracted'')"
  by (simp add: formatContentForAI_def toLowerCase_def str_def)

lemma tablesSection_example:
  assumes "tables d = [t]" "headers t = [str ''Name'', str ''Price'']"
    and "rows t = [[str ''Widget'', str ''$10'']]"
  shows "tablesSection d =
           sectionTitle (str ''TABLES & DATA GRIDS'') @
           ([10] @ str ''--- TABLE 1 '' @
            (case caption t of None \<Rightarrow> []
             | Some c \<Rightarrow> if truthy c then str ''('' @ c @ str '')'' else []) @
            str '' ---'' @ [10]) @
           (str ''HEADERS: Name | Price'' @ [10]) @
           (replicate 50 45 @ [10]) @
           (str ''ROW 1: Widget | $10'' @ [10]) @ [10]"
  using assms
  by (simp add: tablesSection_def formatTable_def formatRow_def show_nat.simps str_def)

text \<open>
  C7. For an extraction result whose only table has the headers \<open>Name\<close>, \<open>Price\<close> and
  the single row \<open>Widget\<close>, \<open>$10\<close>, the formatted context contains the title line of the
  table section, the line \<open>HEADERS: Name | Price\<close> and the line \<open>ROW 1: Widget | $10\<close>.
\<close>

theorem formatContentForAI_table_example:
  assumes "tables d = [t]" "headers t = [str ''Name'', str ''Price'']"
    and "rows t = [[str ''Widget'', str ''$10'']]"
  shows "js_includes (formatContentForAI (Some d)) (sectionTitle (str ''TABLES & DATA GRIDS'')) \<and>
         js_includes (formatContentForAI (Some d)) (str ''HEADERS: Name | Price'' @ [10]) \<and>
         js_includes (formatContentForAI (Some d)) (str ''ROW 1: Widget | $10'' @ [10])"
proof -
  note ts = tablesSection_example [OF assms]
  have "js_includes (tablesSection d) (sectionTitle (str ''TABLES & DATA GRIDS''))"
    unfolding ts by (rule js_includes_prefix)
  moreover have "js_includes (tablesSection d) (str ''HEADERS: Name | Price'' @ [10])"
    unfolding ts by (intro js_includes_appendI2 js_includes_prefix)
  moreover have "js_includes (tablesSection d) (str ''ROW 1: Widget | $10'' @ [10])"
    unfolding ts by (intro js_includes_appendI2 js_includes_prefix)
  ultimately show ?thesis by (simp add: includes_tablesSection)
qed

theorem formatContentForAI_table_example_witness:
  "tables example_page = [example_table] \<and>
   headers example_table = [str ''Name'', str ''Price''] \<and>
   rows example_table = [[str ''Widget'', str ''$10'']] \<and>
   js_includes (formatContentForAI (Some example_page)) (sectionTitle (str ''TABLES & DATA GRIDS'')) \<and>
   js_includes (formatContentForAI (Some example_page)) (str ''HEADERS: Name | Price'' @ [10]) \<and>
   js_includes (formatContentForAI (Some example_page)) (str ''ROW 1: Widget | $10'' @ [10])"
proof -
  have a: "tables example_page = [example_table]" by (simp add: example_page_def)
  have b: "headers example_table = [str ''Name'', str ''Price'']" by (simp add: example_table_def)
  have c: "rows example_table = [[str ''Widget'', str ''$10'']]" by (simp add: example_table_def)
  from formatContentForAI_table_example [OF a b c] a b c show ?thesis by simp
qed

subsection \<open>Password fields\<close>

lemma password_value_hidden:
  "el_type f = str ''password'' \<Longrightarrow> extractField f = Some r \<Longrightarrow> field_value r = str ''[hidden]''"
  by (auto simp: extractField_def fieldValue_def str_def)

text \<open>
  C8. The recorded value of a password field is \<open>[hidden]\<close> (lemma
  \<open>password_value_hidden\<close>), but the extracted form is not independent of the
  password: for a field labelled only by its enclosing \<open>label\<close> element, the first
  occurrence of the typed text is removed from the label. Two pages that differ only
  in the password typed, nothing and \<open>Pass\<close>, give the labels \<open>Password\<close> and \<open>word\<close>.
\<close>

theorem extractForms_label_depends_on_password:
  "extractForms [login_form []] =
     Some [\<lparr>form_index = 0, form_action = [],
            form_fields = [\<lparr>field_type = str ''password'', field_label = str ''Password'',
                             field_value = str ''[hidden]''\<rparr>]\<rparr>] \<and>
   extractForms [login_form (str ''Pass'')] =
     Some [\<lparr>form_index = 0, form_action = [],
            form_fields = [\<lparr>field_type = str ''password'', field_label = str ''word'',
                             field_value = str ''[hidden]''\<rparr>]\<rparr>]"
  by (simp add: extractForms_def extractForm_def extractField_def fieldLabel_def fieldValue_def
        login_form_def password_field_def opt_or_else_def or_else_def truthy_def js_trim_def
        is_space_def str_def Let_def)

subsection \<open>Credential checks\<close>

lemma contactsNetwork_status [simp]: "\<not> contactsNetwork [ShowStatus m t]"
  by (simp add: contactsNetwork_def)

lemma saveSettings_stores_prefixed_key:
  "StorageSet st \<in> set (saveSettings form e) \<Longrightarrow> startsWith (apiKey st) (str ''sk-'')"
  by (auto simp: saveSettings_def Let_def split: if_splits option.splits)

lemma storageAfter_cases:
  "storageAfter storage es = storage \<or>
   (\<exists>st. StorageSet st \<in> set es \<and> storageAfter storage es = Some st)"
proof (induction es arbitrary: storage)
  case Nil
  then show ?case by simp
next
  case (Cons e es)
  show ?case
  proof (cases e)
    case (StorageSet st)
    with Cons [of "Some st"] show ?thesis by auto
  next
    case (ShowStatus m t)
    with Cons [of storage] show ?thesis by auto
  next
    case (Fetch r)
    with Cons [of storage] show ?thesis by auto
  qed
qed

lemma stored_key_has_prefix_from:
  assumes "apiKey (getSettings storage) = [] \<or> startsWith (apiKey (getSettings storage)) (str ''sk-'')"
  shows "apiKey (getSettings (foldl (\<lambda>storage (form, storage_error).
            storageAfter storage (saveSettings form storage_error)) storage runs)) = [] \<or>
         startsWith (apiKey (getSettings (foldl (\<lambda>storage (form, storage_error).
            storageAfter storage (saveSettings form storage_error)) storage runs))) (str ''sk-'')"
  using assms
proof (induction runs arbitrary: storage)
  case Nil
  then show ?case by simp
next
  case (Cons run runs)
  obtain form e where run: "run = (form, e)" by (cases run)
  have "apiKey (getSettings (storageAfter storage (saveSettings form e))) = [] \<or>
        startsWith (apiKey (getSettings (storageAfter storage (saveSettings form e)))) (str ''sk-'')"
    using storageAfter_cases [of storage "saveSettings form e"] Cons.prems
    by (auto simp: getSettings_def dest: saveSettings_stores_prefixed_key)
  then show ?case using run by (simp add: Cons.IH)
qed

text \<open>
  The credential that a chat request can meet, the one in the storage, is empty or
  starts with \<open>sk-\<close>.
\<close>

lemma stored_key_has_prefix:
  "apiKey (getSettings (storedSettings runs)) = [] \<or>
   startsWith (apiKey (getSettings (storedSettings runs))) (str ''sk-'')"
  unfolding storedSettings_def
  by (rule stored_key_has_prefix_from) (simp add: getSettings_def)

text \<open>
  C4, as amended. A value that, once trimmed, does not start with \<open>sk-\<close> is rejected by
  \<open>fetchModels\<close> and by \<open>saveSettings\<close> with an error status and nothing else: no
  request, no storage write. A chat request that finds in the storage a credential
  not starting with \<open>sk-\<close> is rejected by \<open>callOpenAI\<close> with its "not configured"
  error, and no request is sent.
\<close>

theorem credential_prefix_checked:
  assumes "\<not> startsWith (js_trim v) (str ''sk-'')"
    and "\<not> startsWith (apiKey (getSettings (storedSettings runs))) (str ''sk-'')"
  shows "(\<exists>msg. fetchModels v = [ShowStatus msg (str ''error'')]) \<and>
         \<not> contactsNetwork (fetchModels v) \<and>
         (\<exists>msg. saveSettings (form\<lparr>apiKey_value := v\<rparr>) e = [ShowStatus msg (str ''error'')]) \<and>
         \<not> contactsNetwork (saveSettings (form\<lparr>apiKey_value := v\<rparr>) e) \<and>
         callOpenAI msgs (getSettings (storedSettings runs)) outcome =
           ([], Inl (New_Error
              (str ''API key not configured. Click the gear icon to add your OpenAI API key.''))) \<and>
         handleChatMessage userMessage history (storedSettings runs) tabContent outcome =
           ([], Inl (New_Error
              (str ''API key not configured. Click the gear icon to add your OpenAI API key.'')))"
proof -
  from assms(2) stored_key_has_prefix [of runs]
  have "apiKey (getSettings (storedSettings runs)) = []" by blast
  then have chat: "\<And>ms. callOpenAI ms (getSettings (storedSettings runs)) outcome =
      ([], Inl (New_Error
         (str ''API key not configured. Click the gear icon to add your OpenAI API key.'')))"
    by (simp add: callOpenAI_def truthy_def)
  have page: "(\<exists>msg. fetchModels v = [ShowStatus msg (str ''error'')]) \<and>
         \<not> contactsNetwork (fetchModels v) \<and>
         (\<exists>msg. saveSettings (form\<lparr>apiKey_value := v\<rparr>) e = [ShowStatus msg (str ''error'')]) \<and>
         \<not> contactsNetwork (saveSettings (form\<lparr>apiKey_value := v\<rparr>) e)"
    using assms(1) by (auto simp: fetchModels_def saveSettings_def Let_def)
  from page chat show ?thesis by (simp add: handleChatMessage_def Let_def)
qed

text \<open>
  At a concrete input: the value \<open>abc\<close> is refused by both operations of the settings
  page, and after the refused attempt to save it the storage is still empty, so that a
  chat request is refused as well.
\<close>

theorem credential_prefix_checked_witness:
  "\<not> startsWith (js_trim (str ''abc'')) (str ''sk-'') \<and>
   \<not> startsWith (apiKey (getSettings (storedSettings [(example_form (str ''abc''), None)])))
       (str ''sk-'') \<and>
   fetchModels (str ''abc'') = [ShowStatus invalidFormat (str ''error'')] \<and>
   \<not> contactsNetwork (fetchModels (str ''abc'')) \<and>
   saveSettings (example_form (str ''abc'')) None = [ShowStatus invalidFormat (str ''error'')] \<and>
   \<not> contactsNetwork (saveSettings (example_form (str ''abc'')) None) \<and>
   fst (handleChatMessage (str ''hi'') [] (storedSettings [(example_form (str ''abc''), None)])
          [] (Http_ok (Ok_body_content None))) = []"
proof -
  have h: "\<not> startsWith (js_trim (str ''abc'')) (str ''sk-'')"
    by (simp add: js_trim_def is_space_def str_def)
  have s: "saveSettings (example_form (str ''abc'')) None = [ShowStatus invalidFormat (str ''error'')]"
    using h
    by (simp add: saveSettings_def example_form_def Let_def truthy_def js_trim_def is_space_def
          str_def)
  have k: "\<not> startsWith (apiKey (getSettings (storedSettings [(example_form (str ''abc''), None)])))
             (str ''sk-'')"
  proof -
    have "storedSettings [(example_form (str ''abc''), None)] = None"
      by (simp add: storedSettings_def s)
    then show ?thesis by (simp add: getSettings_def str_def)
  qed
  have f: "fetchModels (str ''abc'') = [ShowStatus invalidFormat (str ''error'')]"
    using h by (simp add: fetchModels_def Let_def truthy_def js_trim_def is_space_def str_def)
  from credential_prefix_checked [OF h k, of "example_form (str ''abc'')" None]
  have "\<not> contactsNetwork (fetchModels (str ''abc''))"
    and "\<not> contactsNetwork
           (saveSettings ((example_form (str ''abc''))\<lparr>apiKey_value := str ''abc''\<rparr>) None)"
    and "\<And>userMessage history tabContent outcome.
           handleChatMessage userMessage history
             (storedSettings [(example_form (str ''abc''), None)]) tabContent outcome =
           ([], Inl (New_Error
              (str ''API key not configured. Click the gear icon to add your OpenAI API key.'')))"
    by blast+
  then show ?thesis using h k f s by (simp add: example_form_def)
qed

text \<open>
  C4, counterexample. The claim as stated fails for a value with white space in front:
  the text \<open> sk-abc\<close> typed into the key field does not start with \<open>sk-\<close>, yet
  \<open>fetchModels\<close> trims it and sends the request, and \<open>saveSettings\<close> stores the trimmed
  key.
\<close>

theorem untrimmed_key_counterexample:
  "\<not> startsWith (str '' sk-abc'') (str ''sk-'') \<and>
   fetchModels (str '' sk-abc'') =
     [Fetch \<lparr>req_url = str ''https://api.openai.com/v1/models'', req_method = str ''GET'',
             req_authorization = str ''Bearer sk-abc'', req_body = None\<rparr>] \<and>
   contactsNetwork (fetchModels (str '' sk-abc'')) \<and>
   saveSettings (example_form (str '' sk-abc'')) None =
     [StorageSet \<lparr>apiKey = str ''sk-abc'', model = str ''gpt-4o-mini'', maxTokens = 2000,
                  systemPrompt = DEFAULT_SYSTEM_PROMPT\<rparr>,
      ShowStatus (str ''Settings saved successfully!'') (str ''success'')]"
  by (simp add: fetchModels_def saveSettings_def example_form_def contactsNetwork_def
        parseInt10_def is_digit_def or_else_def truthy_def js_trim_def is_space_def str_def Let_def)

subsection \<open>The tab header\<close>

text \<open>
  C10. Whatever the URL parser does with the input (parse it or throw), the string that
  \<open>truncateUrl\<close> returns has at most 40 code units.
\<close>

theorem truncateUrl_length_le_40: "length (truncateUrl parseURL u) \<le> 40"
  by (auto simp: truncateUrl_def str_def Let_def split: option.split)

end
